theory Spec2Isabelle
  imports Complex_Main
begin

section \<open>JavaScript values\<close>

text \<open>
  The filter rows and the compiled query documents are plain JavaScript values. An object
  is an association list in insertion order (the order \<open>JSON.stringify\<close> prints). A
  finite number is \<open>JNum q\<close>, the double whose exact value is the rational \<open>q\<close> (the two
  zeros are one); the infinities and \<open>NaN\<close> stand apart. Strings are ASCII text.
\<close>

datatype jsval =
    JUndefined
  | JNull
  | JBool bool
  | JNum rat
  | JInfinity
  | JNegInfinity
  | JNaN
  | JStr string
  | JArr "jsval list"
  | JObj "(string \<times> jsval) list"

text \<open>Truthiness, as \<open>!x\<close>, \<open>x || y\<close> and \<open>if (x)\<close> read it.\<close>

fun js_truthy :: "jsval \<Rightarrow> bool" where
  "js_truthy JUndefined = False"
| "js_truthy JNull = False"
| "js_truthy (JBool b) = b"
| "js_truthy (JNum n) = (n \<noteq> 0)"
| "js_truthy JInfinity = True"
| "js_truthy JNegInfinity = True"
| "js_truthy JNaN = False"
| "js_truthy (JStr s) = (s \<noteq> [])"
| "js_truthy (JArr xs) = True"
| "js_truthy (JObj kvs) = True"

text \<open>\<open>a || b\<close> on values and on strings.\<close>

definition js_or :: "jsval \<Rightarrow> jsval \<Rightarrow> jsval" where
  "js_or a b = (if js_truthy a then a else b)"

definition str_or :: "string \<Rightarrow> string \<Rightarrow> string" where
  "str_or a b = (if a \<noteq> [] then a else b)"

text \<open>Property read \<open>o.k\<close> (\<open>undefined\<close> when absent) and property write \<open>o.k = v\<close>
  (an existing key keeps its place, a new key goes last).\<close>

fun js_get :: "jsval \<Rightarrow> string \<Rightarrow> jsval" where
  "js_get (JObj kvs) k = (case map_of kvs k of Some v \<Rightarrow> v | None \<Rightarrow> JUndefined)"
| "js_get _ k = JUndefined"

fun kv_set :: "(string \<times> jsval) list \<Rightarrow> string \<Rightarrow> jsval \<Rightarrow> (string \<times> jsval) list" where
  "kv_set [] k v = [(k, v)]"
| "kv_set ((k', v') # kvs) k v = (if k' = k then (k, v) # kvs else (k', v') # kv_set kvs k v)"

fun js_set :: "jsval \<Rightarrow> string \<Rightarrow> jsval \<Rightarrow> jsval" where
  "js_set (JObj kvs) k v = JObj (kv_set kvs k v)"
| "js_set x k v = x"

fun js_keys :: "jsval \<Rightarrow> string list" where
  "js_keys (JObj kvs) = map fst kvs"
| "js_keys _ = []"

text \<open>The elements an array spread \<open>[...a]\<close> copies.\<close>

fun js_elems :: "jsval \<Rightarrow> jsval list" where
  "js_elems (JArr xs) = xs"
| "js_elems _ = []"

subsection \<open>Strings\<close>

definition endsWith :: "string \<Rightarrow> string \<Rightarrow> bool" where
  "endsWith s suf = (length suf \<le> length s \<and> drop (length s - length suf) s = suf)"

definition startsWith :: "string \<Rightarrow> string \<Rightarrow> bool" where
  "startsWith s p = (take (length p) s = p)"

fun includes' :: "string \<Rightarrow> string \<Rightarrow> bool" where
  "includes' [] sub = (sub = [])"
| "includes' (c # cs) sub = (startsWith (c # cs) sub \<or> includes' cs sub)"

definition toLowerChar :: "char \<Rightarrow> char" where
  "toLowerChar c =
     (case map_of (zip ''ABCDEFGHIJKLMNOPQRSTUVWXYZ'' ''abcdefghijklmnopqrstuvwxyz'') c of
        Some l \<Rightarrow> l | None \<Rightarrow> c)"

definition toLowerCase :: "string \<Rightarrow> string" where
  "toLowerCase s = map toLowerChar s"

definition isWhiteSpace :: "char \<Rightarrow> bool" where
  "isWhiteSpace c = (c \<in> set [CHR '' '', CHR 0x09, CHR 0x0A, CHR 0x0B, CHR 0x0C, CHR 0x0D])"

definition trim :: "string \<Rightarrow> string" where
  "trim s = rev (dropWhile isWhiteSpace (rev (dropWhile isWhiteSpace s)))"

text \<open>\<open>s.split(',')\<close>: never empty, \<open>''''.split(',')\<close> is \<open>['''']\<close>.\<close>

fun splitComma :: "string \<Rightarrow> string list" where
  "splitComma [] = [[]]"
| "splitComma (c # cs) =
     (if c = CHR '','' then [] # splitComma cs
      else (case splitComma cs of w # ws \<Rightarrow> (c # w) # ws | [] \<Rightarrow> [[c]]))"

fun joinWith :: "string \<Rightarrow> string list \<Rightarrow> string" where
  "joinWith sep [] = []"
| "joinWith sep [x] = x"
| "joinWith sep (x # y # ys) = x @ sep @ joinWith sep (y # ys)"

subsection \<open>Numbers and text\<close>

definition isDigit :: "char \<Rightarrow> bool" where
  "isDigit c = (c \<in> set ''0123456789'')"

text \<open>The test \<open>/^-?\d+(\.\d+)?$/\<close>.\<close>

definition matchesNumber :: "string \<Rightarrow> bool" where
  "matchesNumber s =
     (let u = (case s of [] \<Rightarrow> [] | c # r \<Rightarrow> if c = CHR ''-'' then r else s);
          ip = takeWhile isDigit u;
          rest = dropWhile isDigit u
      in ip \<noteq> [] \<and>
         (case rest of [] \<Rightarrow> True
          | d # fr \<Rightarrow> d = CHR ''.'' \<and> fr \<noteq> [] \<and> list_all isDigit fr))"

definition digitVal :: "char \<Rightarrow> int" where
  "digitVal c = (case map_of (zip ''0123456789'' [0, 1, 2, 3, 4, 5, 6, 7, 8, 9]) c of
                   Some d \<Rightarrow> d | None \<Rightarrow> 0)"

definition digitsVal :: "string \<Rightarrow> int" where
  "digitsVal s = foldl (\<lambda>a c. 10 * a + digitVal c) 0 s"

fun natToString :: "nat \<Rightarrow> string" where
  "natToString n =
     (if n < 10 then [''0123456789'' ! n]
      else natToString (n div 10) @ [''0123456789'' ! (n mod 10)])"

text \<open>The decimal digits of an integer that is not negative.\<close>

function digitsOf :: "int \<Rightarrow> string" where
  "digitsOf n =
     (if n < 10 then [''0123456789'' ! nat n]
      else digitsOf (n div 10) @ [''0123456789'' ! nat (n mod 10)])"
  by pat_completeness auto
termination
  by (relation "measure nat") auto

text \<open>
  Rounding to a double. \<open>logFloor b n\<close> is the number of times \<open>n\<close> can be divided by \<open>b\<close>
  before it falls below \<open>b\<close>; \<open>exponentOf b a\<close> is the exponent \<open>e\<close> with
  \<open>b ^ e \<le> a < b ^ (e + 1)\<close>, for a positive \<open>a\<close>.
\<close>

function logFloor :: "int \<Rightarrow> int \<Rightarrow> nat" where
  "logFloor b n = (if b < 2 \<or> n < b then 0 else Suc (logFloor b (n div b)))"
  by pat_completeness auto
termination
proof (relation "measure (\<lambda>(b, n). nat n)")
  show "wf (measure (\<lambda>(b, n). nat n))" by simp
next
  fix b n :: int
  assume "\<not> (b < 2 \<or> n < b)"
  then have "0 < n" and "1 < b" by auto
  then have "n div b < n" by (rule int_div_less_self)
  with \<open>0 < n\<close> show "((b, n div b), (b, n)) \<in> measure (\<lambda>(b, n). nat n)" by simp
qed

definition powInt :: "int \<Rightarrow> int \<Rightarrow> rat" where
  "powInt b e = (if 0 \<le> e then of_int b ^ nat e else 1 / of_int b ^ nat (- e))"

definition exponentOf :: "int \<Rightarrow> rat \<Rightarrow> int" where
  "exponentOf b a =
     (if 1 \<le> a then int (logFloor b \<lfloor>a\<rfloor>)
      else let n = fst (quotient_of a); d = snd (quotient_of a);
               k0 = int (logFloor b d) - int (logFloor b n)
           in if of_int d \<le> of_int n * powInt b k0 then - k0 else - (k0 + 1))"

definition roundHalfEven :: "rat \<Rightarrow> int" where
  "roundHalfEven k =
     (let f = \<lfloor>k\<rfloor>; r = k - of_int f
      in if r < 1 / 2 then f else if 1 / 2 < r then f + 1 else if even f then f else f + 1)"

text \<open>
  The double nearest to a rational \<open>a \<ge> 0\<close>, ties to the even significand: 53 bits of
  significand \<open>m\<close>, the least exponent -1022 (below it the spacing stays \<open>2 ^ -1074\<close>),
  and \<open>None\<close> for what rounds to \<open>2 ^ 1024\<close> or more, which is \<open>Infinity\<close>: an exponent
  of 1024 or more, or the exponent 1023 with the significand rounded up to \<open>2 ^ 53\<close>. An
  integer up to \<open>2 ^ 53 = 9007199254740992\<close> is a double as it is.
\<close>

definition toDouble :: "rat \<Rightarrow> rat option" where
  "toDouble a =
     (if a = 0 then Some 0
      else if of_int \<lfloor>a\<rfloor> = a \<and> a \<le> 9007199254740992 then Some a
      else if 1024 \<le> exponentOf 2 a then None
      else let e = max (exponentOf 2 a) (- 1022);
               ulp = powInt 2 (e - 52);
               m = roundHalfEven (a / ulp)
           in if e = 1023 \<and> m = 9007199254740992 then None else Some (of_int m * ulp))"

text \<open>
  \<open>parseFloat\<close>, on the strings the code gives it: trimmed text that passed the test
  above, read as a decimal and rounded to a double. Any other text is outside what this
  model reads and gives \<open>NaN\<close>.
\<close>

definition parseFloat :: "string \<Rightarrow> jsval" where
  "parseFloat s =
     (if \<not> matchesNumber s then JNaN
      else let neg = (case s of [] \<Rightarrow> False | c # r \<Rightarrow> c = CHR ''-'');
               u = (if neg then tl s else s);
               ip = takeWhile isDigit u;
               fr = (case dropWhile isDigit u of [] \<Rightarrow> [] | d # r \<Rightarrow> r);
               m = of_int (digitsVal ip) + of_int (digitsVal fr) / (10 ^ length fr)
           in case toDouble m of
                None \<Rightarrow> (if neg then JNegInfinity else JInfinity)
              | Some v \<Rightarrow> JNum (if neg then - v else v))"

text \<open>
  Number to text, as \<open>Number::toString\<close> defines it: the fewest digits \<open>s\<close> (\<open>k\<close> of them)
  and the exponent \<open>n\<close> such that \<open>s * 10 ^ (n - k)\<close> rounds to the number, the nearer
  candidate first; then plain digits, a decimal point, leading zeros or the exponent
  form according to \<open>n\<close>. Seventeen digits always suffice.
\<close>

function stripZeros :: "int \<Rightarrow> int" where
  "stripZeros s = (if s \<le> 0 \<or> s mod 10 \<noteq> 0 then s else stripZeros (s div 10))"
  by pat_completeness auto
termination
  by (relation "measure nat") auto

definition digitsAt :: "rat \<Rightarrow> int \<Rightarrow> int \<Rightarrow> int option" where
  "digitsAt a n k =
     (let unit = powInt 10 (n - k);
          scaled = a / unit;
          lo = \<lfloor>scaled\<rfloor>;
          nearLo = (scaled - of_int lo \<le> 1 / 2);
          c1 = (if nearLo then lo else lo + 1);
          c2 = (if nearLo then lo + 1 else lo);
          ok = (\<lambda>s. 0 < s \<and> toDouble (of_int s * unit) = toDouble a)
      in if ok c1 then Some c1 else if ok c2 then Some c2 else None)"

fun shortestDigits :: "rat \<Rightarrow> int \<Rightarrow> int \<Rightarrow> nat \<Rightarrow> int \<times> int" where
  "shortestDigits a n k 0 = (k, roundHalfEven (a / powInt 10 (n - k)))"
| "shortestDigits a n k (Suc fuel) =
     (case digitsAt a n k of
        Some s \<Rightarrow> (k, s)
      | None \<Rightarrow> shortestDigits a n (k + 1) fuel)"

definition formatNumber :: "string \<Rightarrow> int \<Rightarrow> string" where
  "formatNumber ds n =
     (let k = int (length ds)
      in if k \<le> n \<and> n \<le> 21 then ds @ replicate (nat (n - k)) CHR ''0''
         else if 0 < n \<and> n \<le> 21 then take (nat n) ds @ ''.'' @ drop (nat n) ds
         else if - 6 < n \<and> n \<le> 0 then ''0.'' @ replicate (nat (- n)) CHR ''0'' @ ds
         else (if k = 1 then ds else take 1 ds @ ''.'' @ drop 1 ds) @ ''e'' @
              (if 0 \<le> n - 1 then ''+'' else ''-'') @ digitsOf \<bar>n - 1\<bar>)"

definition numToStringAbs :: "rat \<Rightarrow> string" where
  "numToStringAbs a =
     (case toDouble a of
        None \<Rightarrow> ''Infinity''
      | Some m \<Rightarrow>
          if m = 0 then ''0''
          else let n0 = exponentOf 10 m + 1;
                   ks = shortestDigits m n0 1 16;
                   n = n0 + (int (length (digitsOf (snd ks))) - fst ks)
               in formatNumber (digitsOf (stripZeros (snd ks))) n)"

definition numToString :: "rat \<Rightarrow> string" where
  "numToString q = (if q < 0 then ''-'' @ numToStringAbs (- q) else numToStringAbs q)"

text \<open>\<open>String(v)\<close>, as a template literal applies it; an array joins its elements
  with commas, \<open>null\<close> and \<open>undefined\<close> elements as empty text.\<close>

fun js_toString :: "jsval \<Rightarrow> string" where
  "js_toString JUndefined = ''undefined''"
| "js_toString JNull = ''null''"
| "js_toString (JBool b) = (if b then ''true'' else ''false'')"
| "js_toString (JNum n) = numToString n"
| "js_toString JInfinity = ''Infinity''"
| "js_toString JNegInfinity = ''-Infinity''"
| "js_toString JNaN = ''NaN''"
| "js_toString (JStr s) = s"
| "js_toString (JArr xs) =
     joinWith '','' (map (\<lambda>x. if x = JNull \<or> x = JUndefined then [] else js_toString x) xs)"
| "js_toString (JObj kvs) = ''[object Object]''"


section \<open>Filter rows\<close>

text \<open>
  \<open>Filter\<close> of \<open>filter.model.ts\<close>: a row of the flat list. Every field is optional there;
  an absent text field is the empty string here and an absent value is \<open>JUndefined\<close>:
  the code reads them only through \<open>!x\<close> and \<open>x || d\<close>, which do not tell them apart.
  A row may carry more fields than these (a \<open>FilterCondition\<close> carries an id): the
  functions on rows take any extension of the record.
\<close>

record Filter =
  field :: string
  operator :: string
  value' :: jsval
  logic :: string
  minOperator :: string
  minValue :: jsval
  maxOperator :: string
  maxValue :: jsval

datatype error = TypeError

subsection \<open>Helpers of the clause table\<close>

definition isKeywordField :: "string \<Rightarrow> bool" where
  "isKeywordField f = endsWith f ''.keyword''"

definition isNumericValue :: "jsval \<Rightarrow> bool" where
  "isNumericValue v =
     (if v = JNull \<or> v = JUndefined \<or> v = JStr [] then False
      else case v of
             JNum n \<Rightarrow> True
           | JInfinity \<Rightarrow> True
           | JNegInfinity \<Rightarrow> True
           | JNaN \<Rightarrow> True
           | JStr s \<Rightarrow> matchesNumber (trim s)
           | _ \<Rightarrow> False)"

definition isDateField :: "string \<Rightarrow> bool" where
  "isDateField f =
     (f = ''@timestamp'' \<or> includes' (toLowerCase f) ''date'' \<or> includes' (toLowerCase f) ''time'')"

definition convertValue :: "bool \<Rightarrow> jsval \<Rightarrow> jsval" where
  "convertValue isKeyword v =
     (if isKeyword then v
      else if isNumericValue v then
        (let numVal = (case v of JStr s \<Rightarrow> parseFloat (trim s) | _ \<Rightarrow> v)
         in if numVal = JNaN then v else numVal)
      else v)"

text \<open>\<open>Array.isArray(v) ? v : (typeof v === 'string' ? v.split(',').map(trim) : [v])\<close>\<close>

definition valueList :: "jsval \<Rightarrow> jsval" where
  "valueList v =
     (case v of
        JArr xs \<Rightarrow> JArr xs
      | JStr s \<Rightarrow> JArr (map (\<lambda>w. JStr (trim w)) (splitComma s))
      | _ \<Rightarrow> JArr [v])"

text \<open>
  The range bounds: \<open>rangeQuery[minOperator || 'gt'] = ...\<close> when \<open>minValue\<close> is truthy,
  then the same for the maximum.
\<close>

definition rangeBounds :: "(jsval \<Rightarrow> jsval) \<Rightarrow> 'a Filter_scheme \<Rightarrow> jsval" where
  "rangeBounds conv f =
     (let r0 = JObj [];
          r1 = (if js_truthy (minValue f)
                then js_set r0 (str_or (minOperator f) ''gt'') (conv (minValue f)) else r0);
          r2 = (if js_truthy (maxValue f)
                then js_set r1 (str_or (maxOperator f) ''lt'') (conv (maxValue f)) else r1)
      in r2)"

section \<open>The flat compiler and preview of the filter bar\<close>

text \<open>\<open>KibanaFilterBarComponent\<close>. \<open>normalizeOperator\<close> looks the operator up in a table
  of spellings and keeps an unknown one as it is.\<close>

definition operatorMap :: "(string \<times> string) list" where
  "operatorMap =
     [(''is'', ''is''), (''isNot'', ''is_not''), (''is_not'', ''is_not''),
      (''terms'', ''is_one_of''), (''is_one_of'', ''is_one_of''),
      (''notTerms'', ''is_not_one_of''), (''is_not_one_of'', ''is_not_one_of''),
      (''exists'', ''exists''), (''notExists'', ''does_not_exist''),
      (''does_not_exist'', ''does_not_exist''), (''range'', ''range''),
      (''prefix'', ''prefix''), (''wildcard'', ''wildcard''),
      (''query_string'', ''query_string''), (''queryString'', ''query_string'')]"

definition normalizeOperator :: "string \<Rightarrow> string" where
  "normalizeOperator op = (case map_of operatorMap op of Some v \<Rightarrow> v | None \<Rightarrow> op)"

text \<open>
  The body of the \<open>forEach\<close> callback of \<open>generateQueryDSL\<close>: the clause of one row, or
  \<open>None\<close> where the callback returns before its \<open>queries.push\<close>.
\<close>

definition rowQuery :: "'a Filter_scheme \<Rightarrow> jsval option" where
  "rowQuery f =
     (if field f = [] \<or> operator f = [] then None
      else
        let isKeyword = isKeywordField (field f);
            normalizedOperator = normalizeOperator (operator f);
            v = value' f
        in
        if normalizedOperator = ''is'' then
          (if isKeyword \<or> isDateField (field f) \<or> isNumericValue v
           then Some (JObj [(''term'', JObj [(field f, convertValue isKeyword v)])])
           else Some (JObj [(''match'', JObj [(field f, v)])]))
        else if normalizedOperator = ''is_not'' then
          (if isKeyword \<or> isDateField (field f) \<or> isNumericValue v
           then Some (JObj [(''bool'', JObj [(''must_not'',
                  JArr [JObj [(''term'', JObj [(field f, convertValue isKeyword v)])]])])])
           else Some (JObj [(''bool'', JObj [(''must_not'',
                  JArr [JObj [(''match'', JObj [(field f, v)])]])])]))
        else if normalizedOperator = ''is_one_of'' then
          Some (JObj [(''terms'', JObj [(field f, valueList v)])])
        else if normalizedOperator = ''is_not_one_of'' then
          Some (JObj [(''bool'', JObj [(''must_not'',
                  JArr [JObj [(''terms'', JObj [(field f, valueList v)])]])])])
        else if normalizedOperator = ''exists'' then
          Some (JObj [(''exists'', JObj [(''field'', JStr (field f))])])
        else if normalizedOperator = ''does_not_exist'' then
          Some (JObj [(''bool'', JObj [(''must_not'',
                  JArr [JObj [(''exists'', JObj [(''field'', JStr (field f))])]])])])
        else if normalizedOperator = ''range'' then
          (let rangeQuery = rangeBounds (convertValue isKeyword) f
           in if length (js_keys rangeQuery) > 0
              then Some (JObj [(''range'', JObj [(field f, rangeQuery)])])
              else None)
        else if normalizedOperator = ''prefix'' then
          (if \<not> js_truthy v then None
           else if isKeyword then Some (JObj [(''prefix'', JObj [(field f, v)])])
           else Some (JObj [(''wildcard'', JObj [(field f,
                  JObj [(''value'', JStr (js_toString v @ ''*'')),
                        (''case_insensitive'', JBool True)])])]))
        else if normalizedOperator = ''wildcard'' then
          (if \<not> js_truthy v then None
           else Some (JObj [(''wildcard'', JObj [(field f,
                  JObj [(''value'', v), (''case_insensitive'', JBool True)])])]))
        else if normalizedOperator = ''query_string'' then
          (if \<not> js_truthy v then None
           else Some (JObj [(''query_string'',
                  JObj [(''default_field'', JStr (field f)), (''query'', v)])]))
        else None)"

text \<open>An entry of \<open>queries\<close>: \<open>{ query, logic: filter.logic || 'AND', index }\<close>.\<close>

record QueryEntry =
  q_query :: jsval
  q_logic :: string
  q_index :: nat

definition collectQueries :: "'a Filter_scheme list \<Rightarrow> QueryEntry list" where
  "collectQueries filterArray =
     List.map_filter
       (\<lambda>(index, f). map_option
          (\<lambda>q. \<lparr>q_query = q, q_logic = str_or (logic f) ''AND'', q_index = index\<rparr>)
          (rowQuery f))
       (enumerate 0 filterArray)"

text \<open>\<open>operators[i]\<close> is the relation before entry \<open>i\<close>; \<open>operators[0]\<close> is \<open>null\<close>.\<close>

definition queryOperators :: "QueryEntry list \<Rightarrow> string option list" where
  "queryOperators queries = None # map (\<lambda>q. Some (str_or (q_logic q) ''AND'')) (tl queries)"

definition shouldBool :: "jsval list \<Rightarrow> jsval" where
  "shouldBool qs =
     JObj [(''bool'', JObj [(''should'', JArr qs), (''minimum_should_match'', JNum 1)])]"

definition mustBool :: "jsval list \<Rightarrow> jsval" where
  "mustBool qs = JObj [(''bool'', JObj [(''must'', JArr qs)])]"

text \<open>
  One turn of the right-to-left loop, at index \<open>i\<close>. Without nesting, an accumulator
  whose \<open>bool\<close> has the key of the current relation gets the current query put in front
  of that array, in place; otherwise a new \<open>bool\<close> is built around the two.
\<close>

definition nestStep :: "QueryEntry list \<Rightarrow> string option list \<Rightarrow> nat \<Rightarrow> jsval \<Rightarrow> jsval" where
  "nestStep queries operators i result =
     (let currentOp = operators ! (i + 1);
          currentQuery = q_query (queries ! i);
          needsNesting = (i + 1 < length queries - 1 \<and> operators ! (i + 2) \<noteq> currentOp)
      in if currentOp = Some ''OR'' then
           (if needsNesting then shouldBool [currentQuery, result]
            else if js_truthy (js_get result ''bool'') \<and>
                    js_truthy (js_get (js_get result ''bool'') ''should'')
            then js_set result ''bool''
                   (js_set (js_get result ''bool'') ''should''
                      (JArr (currentQuery # js_elems (js_get (js_get result ''bool'') ''should''))))
            else shouldBool [currentQuery, result])
         else
           (if needsNesting then mustBool [currentQuery, result]
            else if js_truthy (js_get result ''bool'') \<and>
                    js_truthy (js_get (js_get result ''bool'') ''must'')
            then js_set result ''bool''
                   (js_set (js_get result ''bool'') ''must''
                      (JArr (currentQuery # js_elems (js_get (js_get result ''bool'') ''must''))))
            else mustBool [currentQuery, result]))"

text \<open>\<open>for (let i = queries.length - 2; i >= 0; i--)\<close>: \<open>nestLoop \<dots> n\<close> runs the
  turns \<open>i = n - 1, \<dots>, 0\<close>.\<close>

fun nestLoop :: "QueryEntry list \<Rightarrow> string option list \<Rightarrow> nat \<Rightarrow> jsval \<Rightarrow> jsval" where
  "nestLoop queries operators 0 result = result"
| "nestLoop queries operators (Suc i) result =
     nestLoop queries operators i (nestStep queries operators i result)"

text \<open>
  \<open>generateQueryDSL\<close>: the document handed to \<open>JSON.stringify\<close>. With no entry at all,
  \<open>queries[queries.length - 1]\<close> is \<open>undefined\<close> and reading its \<open>query\<close> throws.
\<close>

definition generateQueryDSL :: "'a Filter_scheme list \<Rightarrow> error + jsval" where
  "generateQueryDSL filterArray =
     (let queries = collectQueries filterArray;
          operators = queryOperators queries;
          allOperators = tl operators;
          allSame = (length allOperators > 0 \<and> list_all (\<lambda>op. op = allOperators ! 0) allOperators)
      in if length queries = 1 then Inr (JObj [(''query'', q_query (queries ! 0))])
         else if allSame then
           (let queryList = map q_query queries
            in if allOperators ! 0 = Some ''OR''
               then Inr (JObj [(''query'', shouldBool queryList)])
               else Inr (JObj [(''query'', mustBool queryList)]))
         else if queries = [] then Inl TypeError
         else Inr (JObj [(''query'',
                nestLoop queries operators (length queries - 1) (q_query (last queries)))]))"

subsection \<open>The flat preview\<close>

record FilterExpr =
  text' :: string
  e_logic :: string
  hasNot :: bool

definition rangeOperators :: "(string \<times> string) list" where
  "rangeOperators =
     [(''gt'', ''Greater Than''), (''gte'', ''Greater Than/Equal To''),
      (''lt'', ''Less Than''), (''lte'', ''Less Than/Equal To'')]"

definition getRangeOperatorLabel :: "string \<Rightarrow> string" where
  "getRangeOperatorLabel op = (case map_of rangeOperators op of Some l \<Rightarrow> l | None \<Rightarrow> op)"

text \<open>The double quote of the template literals.\<close>

definition dquote :: string where
  "dquote = [CHR 0x22]"

text \<open>The \<open>forEach\<close> callback of \<open>updatePreview\<close>: the expression of one row, or
  \<open>None\<close> for a row with no field or no operator.\<close>

definition rowExpr :: "nat \<Rightarrow> 'a Filter_scheme \<Rightarrow> FilterExpr option" where
  "rowExpr index f =
     (if field f = [] \<or> operator f = [] then None
      else
        let normalizedOperator = normalizeOperator (operator f);
            v = value' f;
            lg = (if index > 0 then str_or (logic f) ''AND'' else []);
            mk = (\<lambda>t n. Some \<lparr>text' = t, e_logic = lg, hasNot = n\<rparr>)
        in
        if normalizedOperator = ''exists'' then mk (field f @ '': exists'') False
        else if normalizedOperator = ''does_not_exist'' then mk (field f @ '': exists'') True
        else if normalizedOperator = ''range'' then
          (let rangeParts =
                 (if js_truthy (minValue f)
                  then [getRangeOperatorLabel (str_or (minOperator f) ''gt'') @ '' '' @
                        js_toString (minValue f)] else []) @
                 (if js_truthy (maxValue f)
                  then [getRangeOperatorLabel (str_or (maxOperator f) ''lt'') @ '' '' @
                        js_toString (maxValue f)] else [])
           in if length rangeParts > 0
              then mk (field f @ '': '' @ joinWith '' and '' rangeParts) False
              else mk (field f @ '': -'') False)
        else if normalizedOperator = ''prefix'' then
          mk (field f @ '': prefix '' @ dquote @ js_toString (js_or v (JStr ''-'')) @ dquote) False
        else if normalizedOperator = ''wildcard'' then
          mk (field f @ '': wildcard '' @ dquote @ js_toString (js_or v (JStr ''-'')) @ dquote) False
        else if normalizedOperator = ''query_string'' then
          mk (field f @ '': query_string '' @ dquote @ js_toString (js_or v (JStr ''-'')) @ dquote) False
        else if normalizedOperator = ''is_not'' then
          mk (field f @ '': '' @ js_toString (js_or v (JStr ''-''))) True
        else if js_truthy v then mk (field f @ '': '' @ js_toString v) False
        else mk (field f @ '': -'') False)"

definition exprText :: "FilterExpr \<Rightarrow> string" where
  "exprText e = (if hasNot e then ''NOT '' @ text' e else text' e)"

definition exprOperators :: "FilterExpr list \<Rightarrow> string option list" where
  "exprOperators filters = None # map (\<lambda>e. Some (str_or (e_logic e) ''AND'')) (tl filters)"

text \<open>One turn of the right-to-left loop of \<open>buildKibanaPreview\<close>, and the loop.\<close>

definition previewStep :: "FilterExpr list \<Rightarrow> string option list \<Rightarrow> nat \<Rightarrow> string \<Rightarrow> string" where
  "previewStep filters operators i result =
     (let currentOp = operators ! (i + 1);
          currentFilterText = exprText (filters ! i);
          needsParens = (i + 1 < length filters - 1 \<and> operators ! (i + 2) \<noteq> currentOp)
      in currentFilterText @ '' '' @ (case currentOp of Some s \<Rightarrow> s | None \<Rightarrow> ''null'') @ '' '' @
         (if needsParens then ''('' @ result @ '')'' else result))"

fun previewLoop :: "FilterExpr list \<Rightarrow> string option list \<Rightarrow> nat \<Rightarrow> string \<Rightarrow> string" where
  "previewLoop filters operators 0 result = result"
| "previewLoop filters operators (Suc i) result =
     previewLoop filters operators i (previewStep filters operators i result)"

text \<open>The parts of the all-same branch: the relation before every row but the first.\<close>

fun sameParts :: "FilterExpr list \<Rightarrow> string option list \<Rightarrow> nat \<Rightarrow> string list" where
  "sameParts [] operators idx = []"
| "sameParts (e # es) operators idx =
     (if idx > 0 then [case operators ! idx of Some s \<Rightarrow> s | None \<Rightarrow> ''null''] else []) @
     [exprText e] @ sameParts es operators (Suc idx)"

definition buildKibanaPreview :: "FilterExpr list \<Rightarrow> string" where
  "buildKibanaPreview filters =
     (if length filters = 0 then []
      else if length filters = 1 then exprText (filters ! 0)
      else
        let operators = exprOperators filters;
            allOperators = tl operators;
            allSame = list_all (\<lambda>op. op = allOperators ! 0) allOperators
        in if allSame then joinWith '' '' (sameParts filters operators 0)
           else previewLoop filters operators (length filters - 1) (exprText (last filters)))"

text \<open>\<open>updatePreview\<close>, as the text it stores in \<open>previewText\<close>.\<close>

definition updatePreview :: "'a Filter_scheme list \<Rightarrow> string" where
  "updatePreview filterArray =
     (if length filterArray = 0 then []
      else let filterExpressions =
                 List.map_filter (\<lambda>(index, f). rowExpr index f) (enumerate 0 filterArray)
           in if length filterExpressions = 0 then []
              else buildKibanaPreview filterExpressions)"


section \<open>The filter tree\<close>

text \<open>
  \<open>FilterCondition\<close> is a \<open>Filter\<close> with an id; a \<open>BooleanNode\<close> has an id, an operator
  and children. \<open>FilterNode\<close> is one or the other, told apart by \<open>isFilterCondition\<close> and
  \<open>isBooleanNode\<close>.
\<close>

record FilterCondition = Filter +
  id' :: string

datatype BoolOp = AND | OR

datatype FilterNode =
    Condition FilterCondition
  | BooleanNode string BoolOp "FilterNode list"

fun isBooleanNode :: "FilterNode \<Rightarrow> bool" where
  "isBooleanNode (BooleanNode i bop cs) = True"
| "isBooleanNode (Condition c) = False"

fun isFilterCondition :: "FilterNode \<Rightarrow> bool" where
  "isFilterCondition (Condition c) = True"
| "isFilterCondition (BooleanNode i bop cs) = False"

fun nodeId :: "FilterNode \<Rightarrow> string" where
  "nodeId (Condition c) = id' c"
| "nodeId (BooleanNode i bop cs) = i"

fun children :: "FilterNode \<Rightarrow> FilterNode list" where
  "children (BooleanNode i bop cs) = cs"
| "children (Condition c) = []"

fun opName :: "BoolOp \<Rightarrow> string" where
  "opName AND = ''AND''"
| "opName OR = ''OR''"

record FilterTree =
  root :: "FilterNode option"
  t_id :: string

text \<open>
  \<open>FilterStateService\<close> holds the current tree. \<open>generateId\<close> reads the clock and a random
  number: here the ids come from a supply \<open>gen\<close>, and the state carries the number of ids
  drawn so far.
\<close>

type_synonym ServiceState = "FilterTree \<times> nat"



subsection \<open>Adding\<close>



subsection \<open>Removing and normalizing\<close>

text \<open>\<open>.filter(child => child !== null)\<close>\<close>

definition dropNulls :: "'a option list \<Rightarrow> 'a list" where
  "dropNulls xs = map the (filter (\<lambda>x. x \<noteq> None) xs)"

fun removeFilterRecursive :: "FilterNode \<Rightarrow> string \<Rightarrow> FilterNode option" where
  "removeFilterRecursive (BooleanNode i bop cs) nodeId' =
     (let filteredChildren = dropNulls (map (\<lambda>child. removeFilterRecursive child nodeId') cs)
      in if length filteredChildren = 0 then None
         else if length filteredChildren = 1 then Some (filteredChildren ! 0)
         else Some (BooleanNode i bop filteredChildren))"
| "removeFilterRecursive (Condition c) nodeId' =
     (if id' c = nodeId' then None else Some (Condition c))"

fun normalizeNode :: "FilterNode option \<Rightarrow> FilterNode option" where
  "normalizeNode None = None"
| "normalizeNode (Some (BooleanNode i bop cs)) =
     (let normalizedChildren = dropNulls (map (\<lambda>child. normalizeNode (Some child)) cs)
      in if length normalizedChildren = 0 then None
         else if length normalizedChildren = 1 then Some (normalizedChildren ! 0)
         else Some (BooleanNode i bop normalizedChildren))"
| "normalizeNode (Some (Condition c)) = Some (Condition c)"

definition removeFilter :: "(nat \<Rightarrow> string) \<Rightarrow> string \<Rightarrow> ServiceState \<Rightarrow> ServiceState" where
  "removeFilter gen nodeId' st =
     (let tree = fst st; n = snd st
      in case root tree of
           None \<Rightarrow> st
         | Some r \<Rightarrow>
             if nodeId r = nodeId' then (\<lparr>root = None, t_id = gen n\<rparr>, Suc n)
             else (let newRoot = removeFilterRecursive r nodeId';
                       normalizedRoot = normalizeNode newRoot
                   in (tree\<lparr>root := normalizedRoot\<rparr>, n)))"

subsection \<open>Looking up\<close>

fun findNodeByIdRecursive :: "FilterNode \<Rightarrow> string \<Rightarrow> FilterNode option"
  and findInChildren :: "FilterNode list \<Rightarrow> string \<Rightarrow> FilterNode option"
where
  "findNodeByIdRecursive (Condition c) nodeId' =
     (if id' c = nodeId' then Some (Condition c) else None)"
| "findNodeByIdRecursive (BooleanNode i bop cs) nodeId' =
     (if i = nodeId' then Some (BooleanNode i bop cs) else findInChildren cs nodeId')"
| "findInChildren [] nodeId' = None"
| "findInChildren (child # rest) nodeId' =
     (case findNodeByIdRecursive child nodeId' of
        Some found \<Rightarrow> Some found
      | None \<Rightarrow> findInChildren rest nodeId')"

definition findNodeById :: "string \<Rightarrow> ServiceState \<Rightarrow> FilterNode option" where
  "findNodeById nodeId' st =
     (case root (fst st) of None \<Rightarrow> None | Some r \<Rightarrow> findNodeByIdRecursive r nodeId')"

subsection \<open>The tree preview\<close>

definition isNegatedFilter :: "FilterCondition \<Rightarrow> bool" where
  "isNegatedFilter f =
     (let op = str_or (operator f) []
      in op = ''is_not'' \<or> op = ''does_not_exist'' \<or> op = ''is_not_one_of'')"

fun generatePreviewRecursive :: "FilterNode \<Rightarrow> BoolOp option \<Rightarrow> string" where
  "generatePreviewRecursive (Condition c) parentOperator =
     (let fld = str_or (field c) ''-'';
          v = js_or (value' c) (JStr ''-'');
          hasNot = isNegatedFilter c;
          filterText = fld @ '': '' @ js_toString v
      in if hasNot then ''NOT '' @ filterText else filterText)"
| "generatePreviewRecursive (BooleanNode i bop cs) parentOperator =
     (let childrenPreviews =
            map (\<lambda>child.
                   let childPreview = generatePreviewRecursive child (Some bop)
                   in if isBooleanNode child \<and> (case child of BooleanNode ci cop ccs \<Rightarrow> cop \<noteq> bop | _ \<Rightarrow> False)
                      then ''('' @ childPreview @ '')''
                      else childPreview) cs;
          joined = joinWith ('' '' @ opName bop @ '' '') childrenPreviews
      in if parentOperator \<noteq> None \<and> parentOperator \<noteq> Some bop
         then ''('' @ joined @ '')''
         else joined)"

definition generatePreview :: "ServiceState \<Rightarrow> string" where
  "generatePreview st =
     (case root (fst st) of None \<Rightarrow> [] | Some r \<Rightarrow> generatePreviewRecursive r None)"

subsection \<open>The tree compiler\<close>

text \<open>\<open>buildSingleFilterQuery\<close>; \<open>JNull\<close> is its \<open>return null\<close>.\<close>

definition buildSingleFilterQuery :: "FilterCondition \<Rightarrow> jsval" where
  "buildSingleFilterQuery f =
     (if field f = [] \<or> operator f = [] then JNull
      else
        let op = operator f;
            fld = field f;
            v = value' f;
            isKeyword = endsWith fld ''.keyword''
        in
        if op = ''is'' then
          (if isKeyword \<or> isNumericValue v
           then JObj [(''term'', JObj [(fld, convertValue isKeyword v)])]
           else JObj [(''match'', JObj [(fld, v)])])
        else if op = ''is_not'' then
          (if isKeyword \<or> isNumericValue v
           then JObj [(''bool'', JObj [(''must_not'',
                  JArr [JObj [(''term'', JObj [(fld, convertValue isKeyword v)])]])])]
           else JObj [(''bool'', JObj [(''must_not'',
                  JArr [JObj [(''match'', JObj [(fld, v)])]])])])
        else if op = ''is_one_of'' then
          JObj [(''terms'', JObj [(fld, valueList v)])]
        else if op = ''is_not_one_of'' then
          JObj [(''bool'', JObj [(''must_not'',
                  JArr [JObj [(''terms'', JObj [(fld, valueList v)])]])])]
        else if op = ''exists'' then
          JObj [(''exists'', JObj [(''field'', JStr fld)])]
        else if op = ''does_not_exist'' then
          JObj [(''bool'', JObj [(''must_not'',
                  JArr [JObj [(''exists'', JObj [(''field'', JStr fld)])]])])]
        else if op = ''range'' then
          (let rangeQuery = rangeBounds (convertValue isKeyword) f
           in if length (js_keys rangeQuery) > 0
              then JObj [(''range'', JObj [(fld, rangeQuery)])]
              else JNull)
        else if op = ''prefix'' then
          (if \<not> js_truthy v then JNull
           else if isKeyword then JObj [(''prefix'', JObj [(fld, v)])]
           else JObj [(''wildcard'', JObj [(fld,
                  JObj [(''value'', JStr (js_toString v @ ''*'')),
                        (''case_insensitive'', JBool True)])])])
        else if op = ''wildcard'' then
          (if \<not> js_truthy v then JNull
           else JObj [(''wildcard'', JObj [(fld,
                  JObj [(''value'', v), (''case_insensitive'', JBool True)])])])
        else if op = ''query_string'' then
          (if \<not> js_truthy v then JNull
           else JObj [(''query_string'',
                  JObj [(''default_field'', JStr fld), (''query'', v)])])
        else JNull)"

definition matchAll :: jsval where
  "matchAll = JObj [(''match_all'', JObj [])]"

definition isEmptyQuery :: "jsval \<Rightarrow> bool" where
  "isEmptyQuery query =
     (\<not> js_truthy query \<or> (js_truthy (js_get query ''match_all'') \<and> length (js_keys query) = 1))"

fun generateQueryDSLRecursive :: "FilterNode \<Rightarrow> jsval" where
  "generateQueryDSLRecursive (Condition c) = buildSingleFilterQuery c"
| "generateQueryDSLRecursive (BooleanNode i bop cs) =
     (let childQueries =
            filter (\<lambda>query. js_truthy query \<and> \<not> isEmptyQuery query)
              (map (\<lambda>child. generateQueryDSLRecursive child) cs)
      in if length childQueries = 0 then matchAll
         else if length childQueries = 1 then childQueries ! 0
         else if bop = OR then shouldBool childQueries
         else mustBool childQueries)"

text \<open>\<open>FilterStateService.generateQueryDSL\<close>\<close>

definition generateQueryDSL_tree :: "ServiceState \<Rightarrow> jsval" where
  "generateQueryDSL_tree st =
     (case root (fst st) of None \<Rightarrow> matchAll | Some r \<Rightarrow> generateQueryDSLRecursive r)"


section \<open>The backend compiler\<close>

text \<open>
  \<open>buildElasticsearchQuery\<close> of \<open>elasticFilterService.js\<close> builds its clauses with the
  \<open>elastic-builder\<close> package, which is not part of this repository: its builders are a
  parameter here, over any type \<open>'q\<close> of query objects. \<open>must\<close> is handed the plain
  documents that \<open>toJSON\<close> returned, not query objects, and a builder that checks its
  arguments throws there: it returns an error or a query object.
\<close>

record 'q Esb =
  termQuery :: "string \<Rightarrow> jsval \<Rightarrow> 'q"
  matchQuery :: "string \<Rightarrow> jsval \<Rightarrow> 'q"
  termsQuery :: "string \<Rightarrow> jsval \<Rightarrow> 'q"
  existsQuery :: "string \<Rightarrow> 'q"
  rangeQuery :: "string \<Rightarrow> jsval \<Rightarrow> 'q"
  prefixQuery :: "string \<Rightarrow> jsval \<Rightarrow> 'q"
  wildcardQuery :: "string \<Rightarrow> jsval \<Rightarrow> 'q"
  caseInsensitive :: "'q \<Rightarrow> bool \<Rightarrow> 'q"
  queryStringQuery :: "jsval \<Rightarrow> 'q"
  defaultField :: "'q \<Rightarrow> string \<Rightarrow> 'q"
  boolQuery :: "'q"
  mustNot :: "'q \<Rightarrow> 'q \<Rightarrow> 'q"
  must :: "'q \<Rightarrow> jsval list \<Rightarrow> error + 'q"
  toJSON :: "'q \<Rightarrow> jsval"

text \<open>
  The \<open>switch\<close> of the \<open>forEach\<close> callback: the query object of one row, or \<open>None\<close>
  where the callback returns early.
\<close>

definition backendRowQuery :: "'q Esb \<Rightarrow> 'a Filter_scheme \<Rightarrow> 'q option" where
  "backendRowQuery esb f =
     (if field f = [] \<or> operator f = [] then None
      else
        let fld = field f;
            op = operator f;
            v = value' f;
            isKeywordField = endsWith fld ''.keyword''
        in
        if op \<in> set [''is'', ''IS''] then
          (if isKeywordField then Some (termQuery esb fld v) else Some (matchQuery esb fld v))
        else if op \<in> set [''is_not'', ''isNot'', ''IS_NOT''] then
          (if isKeywordField then Some (mustNot esb (boolQuery esb) (termQuery esb fld v))
           else Some (mustNot esb (boolQuery esb) (matchQuery esb fld v)))
        else if op \<in> set [''is_one_of'', ''terms'', ''TERMS''] then
          Some (termsQuery esb fld (valueList v))
        else if op \<in> set [''is_not_one_of'', ''notTerms'', ''NOT_TERMS''] then
          Some (mustNot esb (boolQuery esb) (termsQuery esb fld (valueList v)))
        else if op \<in> set [''exists'', ''EXISTS''] then
          Some (existsQuery esb fld)
        else if op \<in> set [''does_not_exist'', ''notExists'', ''NOT_EXISTS''] then
          Some (mustNot esb (boolQuery esb) (existsQuery esb fld))
        else if op \<in> set [''range'', ''RANGE''] then
          (let rq = rangeBounds (\<lambda>x. x) f
           in if length (js_keys rq) > 0 then Some (rangeQuery esb fld rq) else None)
        else if op \<in> set [''prefix'', ''PREFIX''] then
          (if \<not> js_truthy v then None
           else if isKeywordField then Some (prefixQuery esb fld v)
           else Some (caseInsensitive esb (wildcardQuery esb fld (JStr (js_toString v @ ''*''))) True))
        else if op \<in> set [''wildcard'', ''WILDCARD''] then
          (if \<not> js_truthy v then None
           else Some (caseInsensitive esb (wildcardQuery esb fld v) True))
        else if op \<in> set [''query_string'', ''queryString'', ''QUERY_STRING''] then
          (if \<not> js_truthy v then None
           else Some (defaultField esb (queryStringQuery esb v) fld))
        else None)"

text \<open>
  The grouping at the end of the callback, on the pair \<open>(queryGroups, currentGroup)\<close>:
  \<open>OR\<close> rows join the current group, an \<open>AND\<close> row closes it.
\<close>

definition closeGroup :: "jsval list \<Rightarrow> jsval list \<Rightarrow> jsval list" where
  "closeGroup queryGroups currentGroup =
     (if length currentGroup = 1 then queryGroups @ [currentGroup ! 0]
      else queryGroups @ [shouldBool currentGroup])"

definition groupStep ::
    "'q Esb \<Rightarrow> nat \<times> 'a Filter_scheme \<Rightarrow> jsval list \<times> jsval list \<Rightarrow> jsval list \<times> jsval list" where
  "groupStep esb row st =
     (case backendRowQuery esb (snd row) of
        None \<Rightarrow> st
      | Some query \<Rightarrow>
          (let queryJSON = toJSON esb query;
               lg = str_or (logic (snd row)) ''AND'';
               queryGroups = fst st;
               currentGroup = snd st
           in if fst row = 0 then (queryGroups, currentGroup @ [queryJSON])
              else if lg = ''OR'' \<or> lg = ''or'' then (queryGroups, currentGroup @ [queryJSON])
              else if length currentGroup > 0
                   then (closeGroup queryGroups currentGroup, [queryJSON])
                   else (queryGroups, currentGroup)))"

text \<open>
  \<open>buildElasticsearchQuery\<close>; \<open>None\<close> is a \<open>filters\<close> argument that is absent or not an
  array. What \<open>must\<close> throws is thrown by the function.
\<close>

definition buildElasticsearchQuery :: "'q Esb \<Rightarrow> 'a Filter_scheme list option \<Rightarrow> error + jsval" where
  "buildElasticsearchQuery esb filters =
     (case filters of
        None \<Rightarrow> Inr (JObj [(''query'', matchAll)])
      | Some fs \<Rightarrow>
          if length fs = 0 then Inr (JObj [(''query'', matchAll)])
          else
            let st = fold (groupStep esb) (enumerate 0 fs) ([], []);
                queryGroups = (if length (snd st) > 0 then closeGroup (fst st) (snd st) else fst st)
            in if length queryGroups > 0
               then (case must esb (boolQuery esb) queryGroups of
                       Inl e \<Rightarrow> Inl e
                     | Inr bq \<Rightarrow> Inr (JObj [(''query'', toJSON esb bq)]))
               else Inr (JObj [(''query'', toJSON esb (boolQuery esb))]))"

section \<open>The path-based filter builder\<close>

text \<open>
  \<open>FilterBuilderService\<close> keeps nested filters in another shape: a list of filters, a
  combined filter holding a relation and its \<open>meta.params\<close> list. After
  \<open>target[dest.index] = undefined\<close> of its \<open>removeFilter\<close> a list has a hole: \<open>None\<close>.
\<close>

datatype PathFilter =
    PlainFilter Filter
  | CombinedFilter BoolOp "PathFilter option list"

text \<open>
  \<open>normalizeRecursively\<close> on one filter, with \<open>normalizeCombined\<close> and \<open>normalizeArray\<close>
  inside it: a combined filter with fewer than two filters left gives the first of them
  as it is; otherwise its filters are normalized in turn and the ones that vanish are
  dropped (\<open>.filter(Boolean)\<close> before and after).
\<close>

fun normalizeRecursively :: "PathFilter \<Rightarrow> PathFilter option" where
  "normalizeRecursively (PlainFilter f) = Some (PlainFilter f)"
| "normalizeRecursively (CombinedFilter relation params) =
     (let nonEmptyCombinedFilters = dropNulls params
      in if length nonEmptyCombinedFilters < 2
         then (if nonEmptyCombinedFilters = [] then None else Some (nonEmptyCombinedFilters ! 0))
         else Some (CombinedFilter relation
                (map Some (dropNulls
                   (map (\<lambda>item. case item of None \<Rightarrow> None | Some x \<Rightarrow> normalizeRecursively x)
                      params)))))"

text \<open>
  \<open>normalizeFilters\<close>: at the top level a hole reaches \<open>isCombinedFilter\<close>, which reads
  \<open>filter.meta\<close> of \<open>undefined\<close> and throws.
\<close>

definition normalizeFilters :: "PathFilter option list \<Rightarrow> error + PathFilter list" where
  "normalizeFilters filters =
     (if None \<in> set filters then Inl TypeError
      else Inr (dropNulls
             (map (\<lambda>item. case item of None \<Rightarrow> None | Some x \<Rightarrow> normalizeRecursively x)
                filters)))"

section \<open>Notions the properties are stated with\<close>

text \<open>Every \<open>BooleanNode\<close> of the tree has at least two children.\<close>

fun allGroupsBig :: "FilterNode \<Rightarrow> bool" where
  "allGroupsBig (Condition c) = True"
| "allGroupsBig (BooleanNode i bop cs) = (2 \<le> length cs \<and> list_all allGroupsBig cs)"

text \<open>The conditions of a tree, left to right.\<close>

fun conditionsOf :: "FilterNode \<Rightarrow> FilterCondition list" where
  "conditionsOf (Condition c) = [c]"
| "conditionsOf (BooleanNode i bop cs) = concat (map conditionsOf cs)"


text \<open>The ids of the conditions of a tree alone.\<close>

fun conditionIds :: "FilterNode \<Rightarrow> string list" where
  "conditionIds (Condition c) = [id' c]"
| "conditionIds (BooleanNode i bop cs) = concat (map conditionIds cs)"



text \<open>
  The text of one child inside the join of its parent of operator \<open>bop\<close>: the callback of
  \<open>node.children.map\<close> in \<open>generatePreviewRecursive\<close>.
\<close>

definition childPiece :: "BoolOp \<Rightarrow> FilterNode \<Rightarrow> string" where
  "childPiece bop child =
     (let childPreview = generatePreviewRecursive child (Some bop)
      in if isBooleanNode child \<and> (case child of BooleanNode ci cop ccs \<Rightarrow> cop \<noteq> bop | _ \<Rightarrow> False)
         then ''('' @ childPreview @ '')''
         else childPreview)"

text \<open>The clauses of the children that a group keeps: \<open>childQueries\<close> in
  \<open>generateQueryDSLRecursive\<close>.\<close>

definition childQueries :: "FilterNode list \<Rightarrow> jsval list" where
  "childQueries cs =
     filter (\<lambda>query. js_truthy query \<and> \<not> isEmptyQuery query) (map generateQueryDSLRecursive cs)"

section \<open>Concrete inputs\<close>

text \<open>A row as the filter form creates it: nothing chosen, the range operators preset.\<close>

definition blankRow :: Filter where
  "blankRow =
     \<lparr>field = [], operator = [], value' = JStr [], logic = [],
      minOperator = ''gt'', minValue = JStr [], maxOperator = ''lt'', maxValue = JStr []\<rparr>"

text \<open>The three rows of the mixed-relation example: relations \<open>''''\<close>, \<open>AND\<close>, \<open>OR\<close>.\<close>

definition rowA :: Filter where
  "rowA = blankRow\<lparr>field := ''host.keyword'', operator := ''is'', value' := JStr ''web01''\<rparr>"

definition rowB :: Filter where
  "rowB = blankRow\<lparr>field := ''status'', operator := ''is_not'', value' := JStr ''500'',
                   logic := ''AND''\<rparr>"

definition rowC :: Filter where
  "rowC = blankRow\<lparr>field := ''verb.keyword'', operator := ''is_one_of'',
                   value' := JStr ''GET,POST'', logic := ''OR''\<rparr>"

text \<open>An id supply, and a condition with a given id, field, operator and value.\<close>

definition idSupply :: "nat \<Rightarrow> string" where
  "idSupply n = ''filter_'' @ natToString n"

definition cond :: "string \<Rightarrow> string \<Rightarrow> string \<Rightarrow> jsval \<Rightarrow> FilterCondition" where
  "cond i f opr v =
     \<lparr>field = f, operator = opr, value' = v, logic = [],
      minOperator = ''gt'', minValue = JStr [], maxOperator = ''lt'', maxValue = JStr [],
      id' = i\<rparr>"

text \<open>\<open>a AND (b AND c)\<close> and \<open>a AND (b OR c)\<close>: a group inside a group.\<close>

definition sameRelationTree :: FilterNode where
  "sameRelationTree =
     BooleanNode ''g1'' AND
       [Condition (cond ''n1'' ''a'' ''is'' (JStr ''1'')),
        BooleanNode ''g2'' AND
          [Condition (cond ''n2'' ''b'' ''is'' (JStr ''2'')),
           Condition (cond ''n3'' ''c'' ''is'' (JStr ''3''))]]"

definition mixedRelationTree :: FilterNode where
  "mixedRelationTree =
     BooleanNode ''g1'' AND
       [Condition (cond ''n1'' ''a'' ''is'' (JStr ''1'')),
        BooleanNode ''g2'' OR
          [Condition (cond ''n2'' ''b'' ''is'' (JStr ''2'')),
           Condition (cond ''n3'' ''c'' ''is'' (JStr ''3''))]]"

definition treeOf :: "FilterNode \<Rightarrow> ServiceState" where
  "treeOf r = (\<lparr>root = Some r, t_id = ''tree''\<rparr>, 0)"

definition emptyTree :: ServiceState where
  "emptyTree = (\<lparr>root = None, t_id = ''tree''\<rparr>, 0)"

text \<open>A range condition on \<open>bytes\<close> from 0 (inclusive) to 10: the lower bound is the number 0.\<close>

definition zeroBoundRange :: FilterCondition where
  "zeroBoundRange =
     \<lparr>field = ''bytes'', operator = ''range'', value' = JStr [], logic = [],
      minOperator = ''gte'', minValue = JNum 0, maxOperator = ''lt'', maxValue = JNum 10,
      id' = ''n1''\<rparr>"

text \<open>
  A stand-in for the query builders of the backend, for running it on concrete rows: a
  query object is its own document, in the shapes the frontend writes by hand, and \<open>must\<close>
  refuses the plain documents it is handed.
\<close>

definition plainEsb :: "jsval Esb" where
  "plainEsb =
     \<lparr>termQuery = (\<lambda>f v. JObj [(''term'', JObj [(f, v)])]),
      matchQuery = (\<lambda>f v. JObj [(''match'', JObj [(f, v)])]),
      termsQuery = (\<lambda>f v. JObj [(''terms'', JObj [(f, v)])]),
      existsQuery = (\<lambda>f. JObj [(''exists'', JObj [(''field'', JStr f)])]),
      rangeQuery = (\<lambda>f b. JObj [(''range'', JObj [(f, b)])]),
      prefixQuery = (\<lambda>f v. JObj [(''prefix'', JObj [(f, v)])]),
      wildcardQuery = (\<lambda>f v. JObj [(''wildcard'', JObj [(f, JObj [(''value'', v)])])]),
      caseInsensitive = (\<lambda>q b.
         case q of
           JObj [(k, JObj [(f, opts)])] \<Rightarrow>
             JObj [(k, JObj [(f, js_set opts ''case_insensitive'' (JBool b))])]
         | _ \<Rightarrow> q),
      queryStringQuery = (\<lambda>v. JObj [(''query_string'', JObj [(''query'', v)])]),
      defaultField = (\<lambda>q f. js_set q ''query_string''
         (js_set (js_get q ''query_string'') ''default_field'' (JStr f))),
      boolQuery = JObj [(''bool'', JObj [])],
      mustNot = (\<lambda>b q. js_set b ''bool'' (js_set (js_get b ''bool'') ''must_not'' (JArr [q]))),
      must = (\<lambda>b qs. if qs = [] then Inr b else Inl TypeError),
      toJSON = (\<lambda>q. q)\<rparr>"

text \<open>
  A condition with nothing chosen, and two trees holding it: \<open>blank AND (b OR c)\<close>, where
  the outer group keeps one clause, and \<open>a AND (b OR blank)\<close>, where the inner group does.
\<close>

definition blankCondition :: FilterCondition where
  "blankCondition = cond ''n0'' [] [] (JStr [])"

definition singleClauseParentTree :: FilterNode where
  "singleClauseParentTree =
     BooleanNode ''g1'' AND
       [Condition blankCondition,
        BooleanNode ''g2'' OR
          [Condition (cond ''n2'' ''b'' ''is'' (JStr ''2'')),
           Condition (cond ''n3'' ''c'' ''is'' (JStr ''3''))]]"

definition singleClauseChildTree :: FilterNode where
  "singleClauseChildTree =
     BooleanNode ''g1'' AND
       [Condition (cond ''n1'' ''a'' ''is'' (JStr ''1'')),
        BooleanNode ''g2'' OR
          [Condition (cond ''n2'' ''b'' ''is'' (JStr ''2'')),
           Condition blankCondition]]"


section \<open>Facts about the helpers\<close>

lemma set_dropNulls: "set (dropNulls xs) = {y. Some y \<in> set xs}"
  by (induction xs) (auto simp: dropNulls_def)

lemma dropNulls_map_Some: "dropNulls (map Some xs) = xs"
  by (induction xs) (auto simp: dropNulls_def)

subsection \<open>Normalized trees\<close>

lemma normalizeNode_closed:
  "normalizeNode (Some n) = Some m \<Longrightarrow> allGroupsBig m"
proof (induction n arbitrary: m)
  case (Condition c)
  then show ?case by auto
next
  case (BooleanNode i bop cs)
  let ?ns = "dropNulls (map (\<lambda>child. normalizeNode (Some child)) cs)"
  have all: "\<And>x. x \<in> set ?ns \<Longrightarrow> allGroupsBig x"
    using BooleanNode.IH by (auto simp: set_dropNulls)
  show ?case
  proof (cases "length ?ns = 1")
    case True
    then have "m = ?ns ! 0"
      using BooleanNode.prems by (auto simp: Let_def split: if_splits)
    moreover have "?ns ! 0 \<in> set ?ns"
      using True by (metis nth_mem zero_less_one)
    ultimately show ?thesis using all by simp
  next
    case False
    have ne: "?ns \<noteq> []"
      using BooleanNode.prems by (auto simp: Let_def split: if_splits)
    then have "length ?ns \<noteq> 0" by simp
    with False have big: "2 \<le> length ?ns" by linarith
    have m: "m = BooleanNode i bop ?ns"
      using BooleanNode.prems False ne by (auto simp: Let_def split: if_splits)
    show ?thesis unfolding m using all big by (simp add: list_all_iff)
  qed
qed

lemma normalizeNode_fixed:
  "allGroupsBig n \<Longrightarrow> normalizeNode (Some n) = Some n"
proof (induction n)
  case (Condition c)
  then show ?case by simp
next
  case (BooleanNode i bop cs)
  then have "map (\<lambda>child. normalizeNode (Some child)) cs = map Some cs"
    by (auto simp: list_all_iff)
  then have "dropNulls (map (\<lambda>child. normalizeNode (Some child)) cs) = cs"
    by (simp only: dropNulls_map_Some)
  moreover have "2 \<le> length cs" using BooleanNode.prems by simp
  ultimately show ?case by (auto simp: Let_def)
qed

subsection \<open>Groups in the preview and in the compiler\<close>

lemma generatePreviewRecursive_group:
  "generatePreviewRecursive (BooleanNode i bop cs) parentOperator =
     (let joined = joinWith ('' '' @ opName bop @ '' '') (map (childPiece bop) cs)
      in if parentOperator \<noteq> None \<and> parentOperator \<noteq> Some bop
         then ''('' @ joined @ '')'' else joined)"
proof -
  have "childPiece bop =
          (\<lambda>child. if isBooleanNode child \<and>
                        (case child of BooleanNode ci cop ccs \<Rightarrow> cop \<noteq> bop | _ \<Rightarrow> False)
                     then ''('' @ generatePreviewRecursive child (Some bop) @ '')''
                     else generatePreviewRecursive child (Some bop))"
    by (rule ext) (simp add: childPiece_def Let_def)
  then show ?thesis by (simp add: Let_def)
qed

lemma generateQueryDSLRecursive_group:
  "generateQueryDSLRecursive (BooleanNode i bop cs) =
     (if length (childQueries cs) = 0 then matchAll
      else if length (childQueries cs) = 1 then childQueries cs ! 0
      else if bop = OR then shouldBool (childQueries cs)
      else mustBool (childQueries cs))"
  by (simp only: generateQueryDSLRecursive.simps childQueries_def Let_def)

subsection \<open>Range bounds\<close>

lemma rangeBounds_none:
  "\<not> js_truthy (minValue c) \<Longrightarrow> \<not> js_truthy (maxValue c) \<Longrightarrow> rangeBounds conv c = JObj []"
  by (simp add: rangeBounds_def)

lemma rangeBounds_max_only:
  "\<not> js_truthy (minValue c) \<Longrightarrow> js_truthy (maxValue c) \<Longrightarrow>
   rangeBounds conv c = JObj [(str_or (maxOperator c) ''lt'', conv (maxValue c))]"
  by (simp add: rangeBounds_def)

lemma rangeBounds_min_only:
  "js_truthy (minValue c) \<Longrightarrow> \<not> js_truthy (maxValue c) \<Longrightarrow>
   rangeBounds conv c = JObj [(str_or (minOperator c) ''gt'', conv (minValue c))]"
  by (simp add: rangeBounds_def)

lemma normalizeOperator_range: "normalizeOperator ''range'' = ''range''"
  by (simp add: normalizeOperator_def operatorMap_def)

subsection \<open>Numbers\<close>

text \<open>\<open>parseFloat\<close> gives the nearest double, ties to even, and \<open>String\<close> the shortest
  decimal that reads back as the same double.\<close>

lemma parseFloat_rounds_to_double:
  "parseFloat ''9007199254740993'' = JNum 9007199254740992
   \<and> parseFloat ''9007199254740995'' = JNum 9007199254740996
   \<and> parseFloat ''0.1'' = JNum (3602879701896397 / 36028797018963968)
   \<and> parseFloat ''-12.50'' = JNum (- 25 / 2)
   \<and> js_toString (parseFloat ''0.1'') = ''0.1''
   \<and> js_toString (parseFloat ''9007199254740993'') = ''9007199254740992''"
  by code_simp

section \<open>The mixed-relation example\<close>

text \<open>
  C1, the claim as stated fails in its second half: the preview of the three rows is not
  the string \<open>host.keyword: web01 AND (status: 500 OR verb.keyword: GET,POST)\<close>, because
  row B has the operator \<open>is_not\<close> and \<open>updatePreview\<close> marks it with \<open>NOT\<close>.
\<close>

theorem C1_preview_counterexample:
  "updatePreview [rowA, rowB, rowC] \<noteq>
     ''host.keyword: web01 AND (status: 500 OR verb.keyword: GET,POST)''"
  by code_simp

text \<open>
  C1, amended: for the rows A (\<open>is\<close>, \<open>host.keyword\<close>, \<open>web01\<close>), B (\<open>is_not\<close>, \<open>status\<close>,
  \<open>500\<close>) and C (\<open>is_one_of\<close>, \<open>verb.keyword\<close>, \<open>GET,POST\<close>) with the relations \<open>''''\<close>,
  \<open>AND\<close>, \<open>OR\<close>, the flat compiler produces exactly the document
  \<open>{query:{bool:{must:[{term:{host.keyword:web01}}, {bool:{should:[{bool:{must_not:[{term:
  {status:500}}]}}, {terms:{verb.keyword:[GET,POST]}}], minimum_should_match:1}}]}}}\<close>, with
  the status as the number 500, and the flat preview produces exactly
  \<open>host.keyword: web01 AND (NOT status: 500 OR verb.keyword: GET,POST)\<close>.
\<close>

theorem C1_mixed_relation_example:
  "generateQueryDSL [rowA, rowB, rowC] =
     Inr (JObj [(''query'',
       JObj [(''bool'', JObj [(''must'', JArr
         [JObj [(''term'', JObj [(''host.keyword'', JStr ''web01'')])],
          JObj [(''bool'', JObj
            [(''should'', JArr
               [JObj [(''bool'', JObj [(''must_not'', JArr
                  [JObj [(''term'', JObj [(''status'', JNum 500)])]])])],
                JObj [(''terms'', JObj [(''verb.keyword'', JArr [JStr ''GET'', JStr ''POST''])])]]),
             (''minimum_should_match'', JNum 1)])]])])])])
   \<and> updatePreview [rowA, rowB, rowC] =
     ''host.keyword: web01 AND (NOT status: 500 OR verb.keyword: GET,POST)''"
  by code_simp

section \<open>Parentheses of the preview and nesting of the compiler\<close>

text \<open>The clause of a child group, as its parent's array holds it: a group that keeps two
  clauses or more gives one \<open>bool\<close> of its own relation, one that keeps a single clause
  gives that clause, one that keeps none gives nothing.\<close>

lemma keeps_shouldBool: "js_truthy (shouldBool qs) \<and> \<not> isEmptyQuery (shouldBool qs)"
  by (simp add: shouldBool_def isEmptyQuery_def)

lemma keeps_mustBool: "js_truthy (mustBool qs) \<and> \<not> isEmptyQuery (mustBool qs)"
  by (simp add: mustBool_def isEmptyQuery_def)

lemma drops_matchAll: "isEmptyQuery matchAll"
  by (simp add: matchAll_def isEmptyQuery_def)

lemma childQueries_append: "childQueries (xs @ ys) = childQueries xs @ childQueries ys"
  by (simp add: childQueries_def)

lemma childQueries_kept:
  "q \<in> set (childQueries cs) \<Longrightarrow> js_truthy q \<and> \<not> isEmptyQuery q"
  by (auto simp: childQueries_def)

lemma childQueries_group:
  "childQueries [BooleanNode i cop ccs] =
     (if 2 \<le> length (childQueries ccs)
      then [if cop = OR then shouldBool (childQueries ccs) else mustBool (childQueries ccs)]
      else childQueries ccs)"
proof -
  let ?q = "generateQueryDSLRecursive (BooleanNode i cop ccs)"
  have unfold: "childQueries [BooleanNode i cop ccs] =
      (if js_truthy ?q \<and> \<not> isEmptyQuery ?q then [?q] else [])"
    by (simp add: childQueries_def)
  consider (none) "length (childQueries ccs) = 0" | (one) "length (childQueries ccs) = 1"
    | (more) "2 \<le> length (childQueries ccs)"
    by linarith
  then show ?thesis
  proof cases
    case none
    then have "?q = matchAll" unfolding generateQueryDSLRecursive_group by simp
    with none show ?thesis using drops_matchAll by (simp add: unfold)
  next
    case one
    then obtain q where q: "childQueries ccs = [q]"
      by (cases "childQueries ccs") auto
    then have "?q = q" unfolding generateQueryDSLRecursive_group by simp
    moreover have "js_truthy q \<and> \<not> isEmptyQuery q"
      using childQueries_kept [of q ccs] q by simp
    ultimately show ?thesis using q by (simp add: unfold)
  next
    case more
    then have "length (childQueries ccs) \<noteq> 0" "length (childQueries ccs) \<noteq> 1" by auto
    then have "?q = (if cop = OR then shouldBool (childQueries ccs)
                     else mustBool (childQueries ccs))"
      unfolding generateQueryDSLRecursive_group by simp
    with more show ?thesis
      using keeps_shouldBool [of "childQueries ccs"] keeps_mustBool [of "childQueries ccs"]
      by (simp add: unfold)
  qed
qed

text \<open>
  C2, the claim as stated fails, in each of the three ways the claim names. In
  \<open>a AND (b AND c)\<close> the inner group has the relation of its parent: the preview puts no
  parentheses around it, and the compiler still emits a \<open>bool\<close> of its own for it inside
  the \<open>must\<close> of the parent. In \<open>a AND (b OR blank)\<close> the inner group keeps one clause:
  the preview parenthesizes it, and the compiler puts its single clause unwrapped into the
  \<open>must\<close> of the parent. In \<open>blank AND (b OR c)\<close> the outer group keeps one clause: the
  preview parenthesizes the inner group, and the document is the inner \<open>bool\<close> alone, with
  nothing around it.
\<close>

theorem C2_same_relation_counterexample:
  "generatePreviewRecursive sameRelationTree None = ''a: 1 AND b: 2 AND c: 3''
   \<and> generateQueryDSLRecursive sameRelationTree =
     JObj [(''bool'', JObj [(''must'', JArr
        [JObj [(''term'', JObj [(''a'', JNum 1)])],
         JObj [(''bool'', JObj [(''must'', JArr
            [JObj [(''term'', JObj [(''b'', JNum 2)])],
             JObj [(''term'', JObj [(''c'', JNum 3)])]])])]])])]
   \<and> generatePreviewRecursive singleClauseChildTree None = ''a: 1 AND ((b: 2 OR -: -))''
   \<and> generateQueryDSLRecursive singleClauseChildTree =
     JObj [(''bool'', JObj [(''must'', JArr
        [JObj [(''term'', JObj [(''a'', JNum 1)])],
         JObj [(''term'', JObj [(''b'', JNum 2)])]])])]
   \<and> generatePreviewRecursive singleClauseParentTree None = ''-: - AND ((b: 2 OR c: 3))''
   \<and> generateQueryDSLRecursive singleClauseParentTree =
     JObj [(''bool'', JObj [(''should'', JArr
        [JObj [(''term'', JObj [(''b'', JNum 2)])],
         JObj [(''term'', JObj [(''c'', JNum 3)])]]),
       (''minimum_should_match'', JNum 1)])]"
  by code_simp

text \<open>
  C2, amended: for every group and every child of it, the two renderings are decided
  apart. Preview: the text of a child inside the join of its parent is parenthesized if
  and only if the child is a group whose relation differs from the parent's (then twice:
  once by the child for the relation around it, once by the parent); a condition and a
  group of the parent's relation stand bare. Compiler: a child group contributes to the
  clauses its parent keeps, at its own place among them, one nested \<open>bool\<close> of its own
  relation (\<open>must\<close> for \<open>AND\<close>, \<open>should\<close> with \<open>minimum_should_match\<close> 1 for \<open>OR\<close>) if
  and only if it keeps two clauses or more, whatever the relations; with one clause kept
  it contributes that clause unwrapped, with none it contributes nothing; and the parent
  puts a \<open>bool\<close> around the clauses it keeps only when they are two or more (one clause is
  returned as it is, none gives \<open>match_all\<close>).
\<close>

theorem C2_parentheses_and_nesting:
  "childPiece bop (Condition c) = generatePreviewRecursive (Condition c) None
   \<and> childPiece bop (BooleanNode i cop ccs) =
       (if cop \<noteq> bop
        then ''(('' @ generatePreviewRecursive (BooleanNode i cop ccs) None @ ''))''
        else generatePreviewRecursive (BooleanNode i cop ccs) None)
   \<and> generatePreviewRecursive (BooleanNode p bop (pre @ [BooleanNode i cop ccs] @ post)) None =
       joinWith ('' '' @ opName bop @ '' '')
         (map (childPiece bop) pre @ [childPiece bop (BooleanNode i cop ccs)] @
          map (childPiece bop) post)
   \<and> childQueries (pre @ [BooleanNode i cop ccs] @ post) =
       childQueries pre @
       (if 2 \<le> length (childQueries ccs)
        then [if cop = OR then shouldBool (childQueries ccs) else mustBool (childQueries ccs)]
        else childQueries ccs) @
       childQueries post
   \<and> generateQueryDSLRecursive (BooleanNode p bop (pre @ [BooleanNode i cop ccs] @ post)) =
       (let kept = childQueries (pre @ [BooleanNode i cop ccs] @ post)
        in if length kept = 0 then matchAll
           else if length kept = 1 then kept ! 0
           else if bop = OR then shouldBool kept
           else mustBool kept)"
proof -
  have leaf: "childPiece bop (Condition c) = generatePreviewRecursive (Condition c) None"
    by (simp add: childPiece_def Let_def)
  have piece: "childPiece bop (BooleanNode i cop ccs) =
       (if cop \<noteq> bop
        then ''(('' @ generatePreviewRecursive (BooleanNode i cop ccs) None @ ''))''
        else generatePreviewRecursive (BooleanNode i cop ccs) None)"
    by (auto simp: childPiece_def Let_def)
  have join: "generatePreviewRecursive
        (BooleanNode p bop (pre @ [BooleanNode i cop ccs] @ post)) None =
       joinWith ('' '' @ opName bop @ '' '')
         (map (childPiece bop) pre @ [childPiece bop (BooleanNode i cop ccs)] @
          map (childPiece bop) post)"
    by (subst generatePreviewRecursive_group) (simp add: Let_def)
  have kept: "childQueries (pre @ [BooleanNode i cop ccs] @ post) =
       childQueries pre @
       (if 2 \<le> length (childQueries ccs)
        then [if cop = OR then shouldBool (childQueries ccs) else mustBool (childQueries ccs)]
        else childQueries ccs) @
       childQueries post"
    by (simp only: childQueries_append childQueries_group)
  have doc: "generateQueryDSLRecursive
        (BooleanNode p bop (pre @ [BooleanNode i cop ccs] @ post)) =
       (let kept = childQueries (pre @ [BooleanNode i cop ccs] @ post)
        in if length kept = 0 then matchAll
           else if length kept = 1 then kept ! 0
           else if bop = OR then shouldBool kept
           else mustBool kept)"
    by (simp only: generateQueryDSLRecursive_group Let_def)
  from leaf piece join kept doc show ?thesis by (intro conjI)
qed

theorem C2_parentheses_witness:
  "childPiece AND (children mixedRelationTree ! 1) = ''((b: 2 OR c: 3))''
   \<and> childPiece OR (children mixedRelationTree ! 1) = ''b: 2 OR c: 3''
   \<and> generatePreviewRecursive mixedRelationTree None = ''a: 1 AND ((b: 2 OR c: 3))''
   \<and> childQueries (children mixedRelationTree) =
       [JObj [(''term'', JObj [(''a'', JNum 1)])],
        JObj [(''bool'', JObj [(''should'', JArr
              [JObj [(''term'', JObj [(''b'', JNum 2)])],
               JObj [(''term'', JObj [(''c'', JNum 3)])]]),
            (''minimum_should_match'', JNum 1)])]]
   \<and> generateQueryDSLRecursive mixedRelationTree =
       JObj [(''bool'', JObj [(''must'', JArr
         [JObj [(''term'', JObj [(''a'', JNum 1)])],
          JObj [(''bool'', JObj [(''should'', JArr
                [JObj [(''term'', JObj [(''b'', JNum 2)])],
                 JObj [(''term'', JObj [(''c'', JNum 3)])]]),
              (''minimum_should_match'', JNum 1)])]])])]"
  using
    C2_parentheses_and_nesting
      [of AND "cond ''n1'' ''a'' ''is'' (JStr ''1'')" "''g2''" OR
          "[Condition (cond ''n2'' ''b'' ''is'' (JStr ''2'')),
            Condition (cond ''n3'' ''c'' ''is'' (JStr ''3''))]" "''g1''"
          "[Condition (cond ''n1'' ''a'' ''is'' (JStr ''1''))]" "[]"]
    C2_parentheses_and_nesting
      [of OR "cond ''n1'' ''a'' ''is'' (JStr ''1'')" "''g2''" OR
          "[Condition (cond ''n2'' ''b'' ''is'' (JStr ''2'')),
            Condition (cond ''n3'' ''c'' ''is'' (JStr ''3''))]" "''g1''"
          "[Condition (cond ''n1'' ''a'' ''is'' (JStr ''1''))]" "[]"]
  by code_simp

section \<open>Compiling nothing\<close>

text \<open>
  C3, the claim as stated fails for the tree: \<open>FilterStateService.generateQueryDSL\<close>
  returns the bare clause \<open>{match_all:{}}\<close> for an empty tree, with no \<open>query\<close> key around it.
\<close>

theorem C3_empty_tree_counterexample:
  "generateQueryDSL_tree emptyTree \<noteq> JObj [(''query'', JObj [(''match_all'', JObj [])])]"
  by code_simp

text \<open>
  C3, amended: compiling an empty tree (\<open>root = null\<close>) yields exactly the bare clause
  \<open>{match_all:{}}\<close>; the backend compiler, given an absent or an empty filter list, yields
  exactly the document \<open>{query:{match_all:{}}}\<close>.
\<close>

theorem C3_empty_compiles_to_match_all:
  "generateQueryDSL_tree (\<lparr>root = None, t_id = i\<rparr>, n) = JObj [(''match_all'', JObj [])]
   \<and> buildElasticsearchQuery esb None =
       Inr (JObj [(''query'', JObj [(''match_all'', JObj [])])])
   \<and> buildElasticsearchQuery esb (Some []) =
       Inr (JObj [(''query'', JObj [(''match_all'', JObj [])])])"
  by (simp add: generateQueryDSL_tree_def buildElasticsearchQuery_def matchAll_def)

section \<open>Lists in which every row is skipped\<close>

text \<open>The flat compiler of the filter bar throws exactly when no row gives a clause.\<close>

lemma generateQueryDSL_throws_iff:
  "generateQueryDSL fs = Inl TypeError \<longleftrightarrow> collectQueries fs = []"
  by (auto simp: generateQueryDSL_def Let_def queryOperators_def)

text \<open>The backend, on a list whose rows are all skipped, returns the builder's empty
  \<open>bool\<close> query under \<open>query\<close>.\<close>

lemma buildElasticsearchQuery_all_skipped:
  "buildElasticsearchQuery esb (Some [blankRow]) =
     Inr (JObj [(''query'', toJSON esb (boolQuery esb))])"
  by (simp add: buildElasticsearchQuery_def groupStep_def backendRowQuery_def blankRow_def
      enumerate_eq_zip)

text \<open>
  C4, at the failing input: the list the filter bar starts with, one row with no field
  and no operator, makes \<open>generateQueryDSL\<close> throw a \<open>TypeError\<close>; so does the empty list.
\<close>

theorem C4_blank_row_throws:
  "generateQueryDSL [blankRow] = Inl TypeError
   \<and> generateQueryDSL ([] :: Filter list) = Inl TypeError"
  by code_simp

text \<open>The backend, on a list with a row that compiles, returns what \<open>must\<close> makes of the
  plain documents, or throws what it throws.\<close>

lemma buildElasticsearchQuery_one_row:
  "buildElasticsearchQuery esb (Some [rowA]) =
     (case must esb (boolQuery esb) [toJSON esb (termQuery esb ''host.keyword'' (JStr ''web01''))] of
        Inl e \<Rightarrow> Inl e
      | Inr bq \<Rightarrow> Inr (JObj [(''query'', toJSON esb bq)]))"
  by (simp add: buildElasticsearchQuery_def groupStep_def backendRowQuery_def rowA_def
      blankRow_def enumerate_eq_zip closeGroup_def endsWith_def Let_def)

section \<open>Removing a node\<close>

text \<open>In a tree whose groups all have two children or more, an id that is not the id of
  a condition removes nothing: \<open>removeFilterRecursive\<close> compares ids at conditions only.\<close>

lemma removeFilterRecursive_keeps_groups:
  "allGroupsBig r \<Longrightarrow> x \<notin> set (conditionIds r) \<Longrightarrow> removeFilterRecursive r x = Some r"
proof (induction r)
  case (Condition c)
  then show ?case by simp
next
  case (BooleanNode i bop cs)
  then have "map (\<lambda>child. removeFilterRecursive child x) cs = map Some cs"
    by (auto simp: list_all_iff)
  then have "dropNulls (map (\<lambda>child. removeFilterRecursive child x) cs) = cs"
    by (simp only: dropNulls_map_Some)
  moreover have "2 \<le> length cs" using BooleanNode.prems by simp
  ultimately show ?case by (auto simp: Let_def)
qed

lemma removeFilter_group_id_noop:
  assumes "root tree = Some r" and "allGroupsBig r" and "nodeId r \<noteq> x"
    and "x \<notin> set (conditionIds r)"
  shows "removeFilter gen x (tree, n) = (tree, n)"
  using assms
  by (simp add: removeFilter_def Let_def removeFilterRecursive_keeps_groups normalizeNode_fixed)

text \<open>What is left after a removal below the root has no condition of the removed id,
  and all its groups have two children or more.\<close>

lemma removeFilterRecursive_closed:
  "removeFilterRecursive r x = Some m \<Longrightarrow> allGroupsBig m \<and> x \<notin> set (conditionIds m)"
proof (induction r arbitrary: m)
  case (Condition c)
  then show ?case by (auto split: if_splits)
next
  case (BooleanNode i bop cs)
  let ?ns = "dropNulls (map (\<lambda>child. removeFilterRecursive child x) cs)"
  have all: "\<And>y. y \<in> set ?ns \<Longrightarrow> allGroupsBig y \<and> x \<notin> set (conditionIds y)"
    using BooleanNode.IH by (auto simp: set_dropNulls)
  show ?case
  proof (cases "length ?ns = 1")
    case True
    then have "m = ?ns ! 0"
      using BooleanNode.prems by (auto simp: Let_def split: if_splits)
    moreover have "?ns ! 0 \<in> set ?ns"
      using True by (metis nth_mem zero_less_one)
    ultimately show ?thesis using all by simp
  next
    case False
    have ne: "?ns \<noteq> []"
      using BooleanNode.prems by (auto simp: Let_def split: if_splits)
    then have "length ?ns \<noteq> 0" by simp
    with False have big: "2 \<le> length ?ns" by linarith
    have m: "m = BooleanNode i bop ?ns"
      using BooleanNode.prems False ne by (auto simp: Let_def split: if_splits)
    show ?thesis unfolding m using all big by (auto simp: list_all_iff)
  qed
qed

text \<open>After any \<open>removeFilter\<close> the tree is empty, or all its groups have two children or
  more and no condition has the removed id.\<close>

lemma removeFilter_invariant:
  "case root (fst (removeFilter gen x (tree, n))) of
     None \<Rightarrow> True
   | Some m \<Rightarrow> allGroupsBig m \<and> x \<notin> set (conditionIds m)"
proof (cases "root tree")
  case None
  then show ?thesis by (simp add: removeFilter_def)
next
  case (Some r)
  show ?thesis
  proof (cases "nodeId r = x")
    case True
    with Some show ?thesis by (simp add: removeFilter_def)
  next
    case False
    show ?thesis
    proof (cases "removeFilterRecursive r x")
      case None
      with Some False show ?thesis by (simp add: removeFilter_def)
    next
      case (Some m)
      then have "allGroupsBig m \<and> x \<notin> set (conditionIds m)"
        by (rule removeFilterRecursive_closed)
      with Some \<open>root tree = Some r\<close> False show ?thesis
        by (simp add: removeFilter_def normalizeNode_fixed)
    qed
  qed
qed

text \<open>
  C5, at the failing input: in \<open>a AND (b OR c)\<close> the inner group \<open>g2\<close> is found by its id,
  and \<open>removeFilter\<close> with that id leaves the tree as it was.
\<close>

theorem C5_group_not_removed:
  "findNodeById ''g2'' (treeOf mixedRelationTree) =
     Some (BooleanNode ''g2'' OR
            [Condition (cond ''n2'' ''b'' ''is'' (JStr ''2'')),
             Condition (cond ''n3'' ''c'' ''is'' (JStr ''3''))])
   \<and> removeFilter idSupply ''g2'' (treeOf mixedRelationTree) = treeOf mixedRelationTree"
  by code_simp

section \<open>Adding a condition\<close>










section \<open>Date fields\<close>

text \<open>The flat compiler of the filter bar gives a date-named field a \<open>term\<close> clause for
  \<open>is\<close> and \<open>is_not\<close>, whatever the value.\<close>

lemma rowQuery_is_date:
  assumes "field f \<noteq> []" and "isDateField (field f)" and "operator f = ''is''"
  shows "rowQuery f =
     Some (JObj [(''term'', JObj [(field f, convertValue (isKeywordField (field f)) (value' f))])])"
  using assms by (simp add: rowQuery_def Let_def normalizeOperator_def operatorMap_def)

lemma rowQuery_is_not_date:
  assumes "field f \<noteq> []" and "isDateField (field f)" and "operator f = ''is_not''"
  shows "rowQuery f =
     Some (JObj [(''bool'', JObj [(''must_not'', JArr
       [JObj [(''term'', JObj [(field f, convertValue (isKeywordField (field f)) (value' f))])]])])])"
  using assms by (simp add: rowQuery_def Let_def normalizeOperator_def operatorMap_def)

text \<open>The tree compiler has no date test: a field without the \<open>.keyword\<close> suffix and a
  value that is not numeric give a \<open>match\<close> clause.\<close>

lemma buildSingleFilterQuery_is_text:
  assumes "field c \<noteq> []" and "operator c = ''is''"
    and "\<not> endsWith (field c) ''.keyword''" and "\<not> isNumericValue (value' c)"
  shows "buildSingleFilterQuery c = JObj [(''match'', JObj [(field c, value' c)])]"
  using assms by (simp add: buildSingleFilterQuery_def Let_def)

text \<open>
  C7, at the failing input: for the field \<open>@timestamp\<close> and the value \<open>2024-01-01\<close> the
  tree compiler emits \<open>match\<close> for \<open>is\<close> and \<open>must_not [match]\<close> for \<open>is_not\<close>, where the
  flat compiler emits \<open>term\<close>.
\<close>

theorem C7_tree_compiler_matches_dates:
  "buildSingleFilterQuery (cond ''n1'' ''@timestamp'' ''is'' (JStr ''2024-01-01'')) =
      JObj [(''match'', JObj [(''@timestamp'', JStr ''2024-01-01'')])]
   \<and> buildSingleFilterQuery (cond ''n1'' ''@timestamp'' ''is_not'' (JStr ''2024-01-01'')) =
      JObj [(''bool'', JObj [(''must_not'', JArr
        [JObj [(''match'', JObj [(''@timestamp'', JStr ''2024-01-01'')])]])])]
   \<and> rowQuery (cond ''n1'' ''@timestamp'' ''is'' (JStr ''2024-01-01'')) =
      Some (JObj [(''term'', JObj [(''@timestamp'', JStr ''2024-01-01'')])])
   \<and> rowQuery (cond ''n1'' ''@timestamp'' ''is_not'' (JStr ''2024-01-01'')) =
      Some (JObj [(''bool'', JObj [(''must_not'', JArr
        [JObj [(''term'', JObj [(''@timestamp'', JStr ''2024-01-01'')])]])])])"
  by code_simp

section \<open>The NOT prefix of a leaf\<close>

text \<open>The tree preview marks the three negated operators.\<close>

lemma generatePreviewRecursive_leaf:
  "generatePreviewRecursive (Condition c) parentOperator =
     (if operator c \<in> set [''is_not'', ''does_not_exist'', ''is_not_one_of''] then ''NOT '' else []) @
     str_or (field c) ''-'' @ '': '' @ js_toString (js_or (value' c) (JStr ''-''))"
  by (simp add: isNegatedFilter_def Let_def str_or_def)

text \<open>The flat preview marks two of them: \<open>does_not_exist\<close> and \<open>is_not\<close>.\<close>

lemma rowExpr_hasNot:
  assumes "rowExpr index f = Some e"
  shows "hasNot e \<longleftrightarrow>
     normalizeOperator (operator f) = ''does_not_exist'' \<or> normalizeOperator (operator f) = ''is_not''"
  using assms by (auto simp: rowExpr_def Let_def split: if_splits)

text \<open>
  C8, at the failing input: a row with the operator \<open>is_not_one_of\<close> compiles to a
  \<open>must_not\<close> clause and the tree preview renders it with \<open>NOT\<close>, while the flat preview
  renders it without.
\<close>

theorem C8_flat_preview_misses_is_not_one_of:
  "updatePreview [cond ''n1'' ''verb.keyword'' ''is_not_one_of'' (JStr ''GET,POST'')] =
      ''verb.keyword: GET,POST''
   \<and> generatePreviewRecursive
       (Condition (cond ''n1'' ''verb.keyword'' ''is_not_one_of'' (JStr ''GET,POST''))) None =
      ''NOT verb.keyword: GET,POST''
   \<and> generateQueryDSL [cond ''n1'' ''verb.keyword'' ''is_not_one_of'' (JStr ''GET,POST'')] =
      Inr (JObj [(''query'', JObj [(''bool'', JObj [(''must_not'', JArr
        [JObj [(''terms'', JObj [(''verb.keyword'', JArr [JStr ''GET'', JStr ''POST''])])]])])])])"
  by code_simp

section \<open>Normalization\<close>

subsection \<open>The normalizer of the tree\<close>

text \<open>
  \<open>normalizeNode\<close> does what the specification says of \<open>normalize\<close>. A group whose
  children all vanish is removed, a group with one surviving child is replaced by that
  child, any other group keeps its id and relation around the survivors.
\<close>

lemma normalizeNode_group:
  "normalizeNode (Some (BooleanNode i bop cs)) =
     (case dropNulls (map (\<lambda>child. normalizeNode (Some child)) cs) of
        [] \<Rightarrow> None
      | [only] \<Rightarrow> Some only
      | first # second # others \<Rightarrow> Some (BooleanNode i bop (first # second # others)))"
  by (simp add: Let_def split: list.splits)

text \<open>No condition is lost, added, changed or moved: the conditions of the result, left to
  right, are those of the argument, and the result is \<open>null\<close> only for a tree without
  conditions.\<close>

lemma concat_dropNulls:
  "concat (map f (dropNulls (map g xs))) =
     concat (map (\<lambda>x. case g x of None \<Rightarrow> [] | Some m \<Rightarrow> f m) xs)"
  by (induction xs) (auto simp: dropNulls_def)

lemma normalizeNode_keeps_conditions:
  "(case normalizeNode (Some n) of None \<Rightarrow> [] | Some m \<Rightarrow> conditionsOf m) = conditionsOf n"
proof (induction n)
  case (Condition c)
  show ?case by simp
next
  case (BooleanNode i bop cs)
  let ?ns = "dropNulls (map (\<lambda>child. normalizeNode (Some child)) cs)"
  have "concat (map conditionsOf ?ns) =
          concat (map (\<lambda>x. case normalizeNode (Some x) of None \<Rightarrow> []
                             | Some m \<Rightarrow> conditionsOf m) cs)"
    by (rule concat_dropNulls)
  also have "\<dots> = concat (map conditionsOf cs)"
    using BooleanNode.IH by (simp cong: map_cong)
  finally have all: "concat (map conditionsOf ?ns) = concat (map conditionsOf cs)" .
  show ?case
  proof (cases ?ns)
    case Nil
    then show ?thesis using all by (simp add: Let_def)
  next
    case (Cons a rest)
    show ?thesis
    proof (cases rest)
      case Nil
      then show ?thesis using all Cons by (simp add: Let_def)
    next
      case (Cons b others)
      then show ?thesis using all \<open>?ns = a # rest\<close> by (simp add: Let_def)
    qed
  qed
qed

lemma normalizeNode_null_iff:
  "normalizeNode (Some n) = None \<longleftrightarrow> conditionsOf n = []"
proof
  assume "normalizeNode (Some n) = None"
  then show "conditionsOf n = []"
    using normalizeNode_keeps_conditions [of n] by simp
next
  assume empty: "conditionsOf n = []"
  show "normalizeNode (Some n) = None"
  proof (cases "normalizeNode (Some n)")
    case None
    then show ?thesis .
  next
    case (Some m)
    have nonempty: "allGroupsBig k \<Longrightarrow> conditionsOf k \<noteq> []" for k
    proof (induction k)
      case (Condition c)
      show ?case by simp
    next
      case (BooleanNode i bop cs)
      then obtain c rest where cs: "cs = c # rest" by (cases cs) auto
      then have "allGroupsBig c" using BooleanNode.prems by simp
      then have "conditionsOf c \<noteq> []" using BooleanNode.IH cs by simp
      then show ?case using cs by simp
    qed
    have "allGroupsBig m" using Some by (rule normalizeNode_closed)
    then have "conditionsOf m \<noteq> []" by (rule nonempty)
    moreover have "conditionsOf m = conditionsOf n"
      using normalizeNode_keeps_conditions [of n] Some by simp
    ultimately show ?thesis using empty by simp
  qed
qed

text \<open>
  \<open>normalizeNode\<close> is idempotent, and every \<open>BooleanNode\<close> of a normalized tree has at
  least two children; an empty tree (\<open>null\<close>) stays empty. A tree whose groups all have
  two children or more is left as it is (\<open>normalizeNode_fixed\<close>).
\<close>

lemma normalizeNode_idempotent_closed:
  "normalizeNode (normalizeNode t) = normalizeNode t \<and>
   (case normalizeNode t of None \<Rightarrow> True | Some n \<Rightarrow> allGroupsBig n)"
proof (cases t)
  case None
  then show ?thesis by simp
next
  case (Some n)
  show ?thesis
  proof (cases "normalizeNode (Some n)")
    case None
    with Some show ?thesis by simp
  next
    case (Some m)
    then have "allGroupsBig m" by (rule normalizeNode_closed)
    with Some \<open>t = Some n\<close> show ?thesis by (simp add: normalizeNode_fixed)
  qed
qed

text \<open>A cascade collapses in one pass: \<open>AND [OR [], OR [AND [a]], AND [b, OR [c]]]\<close> gives
  \<open>AND [a, AND [b, c]]\<close>, the outer groups keeping their ids and relations.\<close>

lemma normalizeNode_cascade:
  "normalizeNode (Some (BooleanNode ''g1'' AND
      [BooleanNode ''g2'' OR [],
       BooleanNode ''g3'' OR [BooleanNode ''g4'' AND [Condition (cond ''n1'' ''a'' ''is'' (JStr ''1''))]],
       BooleanNode ''g5'' AND
         [Condition (cond ''n2'' ''b'' ''is'' (JStr ''2'')),
          BooleanNode ''g6'' OR [Condition (cond ''n3'' ''c'' ''is'' (JStr ''3''))]]])) =
   Some (BooleanNode ''g1'' AND
      [Condition (cond ''n1'' ''a'' ''is'' (JStr ''1'')),
       BooleanNode ''g5'' AND
         [Condition (cond ''n2'' ''b'' ''is'' (JStr ''2'')),
          Condition (cond ''n3'' ''c'' ''is'' (JStr ''3''))]])
   \<and> normalizeNode (Some (BooleanNode ''g1'' AND [BooleanNode ''g2'' OR []])) = None"
  by code_simp

subsection \<open>The normalizer of the path-based builder\<close>

text \<open>
  C9 fails on \<open>normalizeFilters\<close>, the normalizer of the path-based builder, whose
  comment promises that it removes empty filters and flattens single-item groups.
  \<open>normalizeCombined\<close> returns the only filter of a group as it stands, without
  normalizing it, and does not count the filters of a group again once they are
  normalized. So the list \<open>[AND [OR [a]]]\<close> becomes \<open>[OR [a]]\<close>, a group with one filter,
  and only a second pass gives \<open>[a]\<close>: the result is not normalized and the function is
  not idempotent. The list \<open>[AND [OR [], OR []]]\<close> becomes \<open>[AND []]\<close>, an empty group,
  and a second pass gives the empty list.
\<close>

theorem C9_normalizeFilters_not_idempotent:
  "normalizeFilters
     [Some (CombinedFilter AND [Some (CombinedFilter OR [Some (PlainFilter rowA)])])] =
     Inr [CombinedFilter OR [Some (PlainFilter rowA)]]
   \<and> normalizeFilters [Some (CombinedFilter OR [Some (PlainFilter rowA)])] =
     Inr [PlainFilter rowA]
   \<and> normalizeFilters
     [Some (CombinedFilter AND [Some (CombinedFilter OR []), Some (CombinedFilter OR [])])] =
     Inr [CombinedFilter AND []]
   \<and> normalizeFilters [Some (CombinedFilter AND [])] = Inr []"
  by code_simp

section \<open>Falsy range bounds\<close>

lemma buildSingleFilterQuery_range:
  "field c \<noteq> [] \<Longrightarrow> operator c = ''range'' \<Longrightarrow>
   buildSingleFilterQuery c =
     (let rq = rangeBounds (convertValue (endsWith (field c) ''.keyword'')) c
      in if length (js_keys rq) > 0 then JObj [(''range'', JObj [(field c, rq)])] else JNull)"
  by (simp add: buildSingleFilterQuery_def Let_def)

lemma rowQuery_range:
  "field c \<noteq> [] \<Longrightarrow> operator c = ''range'' \<Longrightarrow>
   rowQuery c =
     (let rq = rangeBounds (convertValue (endsWith (field c) ''.keyword'')) c
      in if length (js_keys rq) > 0 then Some (JObj [(''range'', JObj [(field c, rq)])]) else None)"
  by (simp add: rowQuery_def Let_def normalizeOperator_range isKeywordField_def)

lemma backendRowQuery_range:
  "field c \<noteq> [] \<Longrightarrow> operator c = ''range'' \<Longrightarrow>
   backendRowQuery esb c =
     (let rq = rangeBounds (\<lambda>x. x) c
      in if length (js_keys rq) > 0 then Some (rangeQuery esb (field c) rq) else None)"
  by (simp add: backendRowQuery_def Let_def)

lemma null_dropped_by_parent:
  "buildSingleFilterQuery c = JNull \<Longrightarrow>
   generateQueryDSLRecursive (BooleanNode i bop (Condition c # cs)) =
   generateQueryDSLRecursive (BooleanNode i bop cs)"
  by (simp add: Let_def)

text \<open>
  C10: for a range condition (a field, the operator \<open>range\<close>), in the tree compiler, the
  flat compiler and the backend compiler alike: with both bounds falsy the condition
  compiles to nothing (\<open>null\<close>, or a skipped row) and a parent group drops it; with one
  bound falsy the range clause holds the other bound alone. The number 0, the empty
  string, \<open>null\<close> and \<open>undefined\<close> are falsy, so a bound of 0 is discarded.
\<close>

theorem C10_falsy_range_bound_is_absent:
  assumes "field c \<noteq> []" and "operator c = ''range''"
  shows
   "(\<not> js_truthy (minValue c) \<and> \<not> js_truthy (maxValue c) \<longrightarrow>
       buildSingleFilterQuery c = JNull \<and> rowQuery c = None \<and> backendRowQuery esb c = None \<and>
       generateQueryDSLRecursive (BooleanNode i bop (Condition c # cs)) =
         generateQueryDSLRecursive (BooleanNode i bop cs)) \<and>
    (\<not> js_truthy (minValue c) \<and> js_truthy (maxValue c) \<longrightarrow>
       buildSingleFilterQuery c =
         JObj [(''range'', JObj [(field c,
           JObj [(str_or (maxOperator c) ''lt'',
                  convertValue (endsWith (field c) ''.keyword'') (maxValue c))])])] \<and>
       rowQuery c = Some (buildSingleFilterQuery c) \<and>
       backendRowQuery esb c =
         Some (rangeQuery esb (field c) (JObj [(str_or (maxOperator c) ''lt'', maxValue c)]))) \<and>
    (js_truthy (minValue c) \<and> \<not> js_truthy (maxValue c) \<longrightarrow>
       buildSingleFilterQuery c =
         JObj [(''range'', JObj [(field c,
           JObj [(str_or (minOperator c) ''gt'',
                  convertValue (endsWith (field c) ''.keyword'') (minValue c))])])] \<and>
       rowQuery c = Some (buildSingleFilterQuery c) \<and>
       backendRowQuery esb c =
         Some (rangeQuery esb (field c) (JObj [(str_or (minOperator c) ''gt'', minValue c)]))) \<and>
    \<not> js_truthy (JNum 0) \<and> \<not> js_truthy (JStr []) \<and> \<not> js_truthy JNull \<and> \<not> js_truthy JUndefined"
proof -
  note r = buildSingleFilterQuery_range [OF assms] rowQuery_range [OF assms]
    backendRowQuery_range [OF assms]
  have none: "\<not> js_truthy (minValue c) \<and> \<not> js_truthy (maxValue c) \<longrightarrow>
       buildSingleFilterQuery c = JNull \<and> rowQuery c = None \<and> backendRowQuery esb c = None \<and>
       generateQueryDSLRecursive (BooleanNode i bop (Condition c # cs)) =
         generateQueryDSLRecursive (BooleanNode i bop cs)"
    using null_dropped_by_parent [of c i bop cs] by (simp add: r rangeBounds_none)
  have mx: "\<not> js_truthy (minValue c) \<and> js_truthy (maxValue c) \<longrightarrow>
       buildSingleFilterQuery c =
         JObj [(''range'', JObj [(field c,
           JObj [(str_or (maxOperator c) ''lt'',
                  convertValue (endsWith (field c) ''.keyword'') (maxValue c))])])] \<and>
       rowQuery c = Some (buildSingleFilterQuery c) \<and>
       backendRowQuery esb c =
         Some (rangeQuery esb (field c) (JObj [(str_or (maxOperator c) ''lt'', maxValue c)]))"
    by (simp add: r rangeBounds_max_only)
  have mn: "js_truthy (minValue c) \<and> \<not> js_truthy (maxValue c) \<longrightarrow>
       buildSingleFilterQuery c =
         JObj [(''range'', JObj [(field c,
           JObj [(str_or (minOperator c) ''gt'',
                  convertValue (endsWith (field c) ''.keyword'') (minValue c))])])] \<and>
       rowQuery c = Some (buildSingleFilterQuery c) \<and>
       backendRowQuery esb c =
         Some (rangeQuery esb (field c) (JObj [(str_or (minOperator c) ''gt'', minValue c)]))"
    by (simp add: r rangeBounds_min_only)
  show ?thesis using none mx mn by simp
qed

theorem C10_zero_bound_witness:
  "field zeroBoundRange \<noteq> [] \<and> operator zeroBoundRange = ''range''
   \<and> minValue zeroBoundRange = JNum 0 \<and> \<not> js_truthy (minValue zeroBoundRange)
   \<and> js_truthy (maxValue zeroBoundRange)
   \<and> buildSingleFilterQuery zeroBoundRange =
       JObj [(''range'', JObj [(''bytes'', JObj [(''lt'', JNum 10)])])]
   \<and> rowQuery zeroBoundRange =
       Some (JObj [(''range'', JObj [(''bytes'', JObj [(''lt'', JNum 10)])])])
   \<and> backendRowQuery plainEsb zeroBoundRange =
       Some (JObj [(''range'', JObj [(''bytes'', JObj [(''lt'', JNum 10)])])])
   \<and> buildSingleFilterQuery (zeroBoundRange\<lparr>maxValue := JStr []\<rparr>) = JNull
   \<and> rowQuery (zeroBoundRange\<lparr>maxValue := JStr []\<rparr>) = None
   \<and> backendRowQuery plainEsb (zeroBoundRange\<lparr>maxValue := JStr []\<rparr>) = None
   \<and> generateQueryDSLRecursive
         (BooleanNode ''g'' AND
            [Condition (zeroBoundRange\<lparr>maxValue := JStr []\<rparr>),
             Condition (cond ''n2'' ''b'' ''is'' (JStr ''2''))]) =
       JObj [(''term'', JObj [(''b'', JNum 2)])]
   \<and> buildSingleFilterQuery (zeroBoundRange\<lparr>minValue := JNum 5, maxValue := JNull\<rparr>) =
       JObj [(''range'', JObj [(''bytes'', JObj [(''gte'', JNum 5)])])]
   \<and> rowQuery (zeroBoundRange\<lparr>minValue := JNum 5, maxValue := JNull\<rparr>) =
       Some (JObj [(''range'', JObj [(''bytes'', JObj [(''gte'', JNum 5)])])])
   \<and> backendRowQuery plainEsb (zeroBoundRange\<lparr>minValue := JNum 5, maxValue := JNull\<rparr>) =
       Some (JObj [(''range'', JObj [(''bytes'', JObj [(''gte'', JNum 5)])])])"
  using
    C10_falsy_range_bound_is_absent [of zeroBoundRange plainEsb "''g''" AND "[]"]
    C10_falsy_range_bound_is_absent
      [of "zeroBoundRange\<lparr>maxValue := JStr []\<rparr>" plainEsb "''g''" AND
          "[Condition (cond ''n2'' ''b'' ''is'' (JStr ''2''))]"]
    C10_falsy_range_bound_is_absent
      [of "zeroBoundRange\<lparr>minValue := JNum 5, maxValue := JNull\<rparr>" plainEsb "''g''" AND "[]"]
  by code_simp

end
